theory Spec2Isabelle
  imports Complex_Main
begin

section \<open>The submission endpoint of the litter reporter\<close>

text \<open>
  A shallow embedding of \<^verbatim>\<open>src/app/api/submit/route.ts\<close>: the validation schema, the
  bounding box, the report formatter and sender, the idempotency store and the
  \<^verbatim>\<open>POST\<close> handler.

  Conventions of the embedding.
  \<^item> A JavaScript number is modelled by its exact rational value and arithmetic is exact:
    the rounding error of IEEE doubles, the infinities and NaN are outside the model.
  \<^item> A string is a list of bytes, the UTF-8 encoding of the JavaScript string. The
    operations the handler uses (concatenation, splitting at a comma, trimming a template
    whose ends are ASCII) act on the encoding as they act on the string.
  \<^item> Whatever the handler reads from outside (the clock, the random source, the fresh
    correlation identifier, the answer of the email transport) is an argument; whatever it
    does to the outside (a log line, a call of the transport) is an event of the returned
    trace; the idempotency store is passed in and returned.
\<close>

subsection \<open>JSON values and thrown errors\<close>

datatype json =
    JNull
  | JBool bool
  | JNum rat
  | JStr string
  | JArr "json list"
  | JObj "(string \<times> json) list"

text \<open>
  Everything thrown in the handler is an \<^verbatim>\<open>Error\<close>; the handler only distinguishes
  zod's \<^verbatim>\<open>ZodError\<close> from the rest. The message of a \<^verbatim>\<open>ZodError\<close> (zod's issue list)
  is only ever logged and is not modelled.
\<close>

datatype exn = ZodError | Error string

fun exn_message :: "exn \<Rightarrow> string" where
  "exn_message ZodError = []"
| "exn_message (Error m) = m"

text \<open>A property read of a parsed JSON object: \<open>None\<close> is JavaScript's \<^verbatim>\<open>undefined\<close>.\<close>

definition get_prop :: "(string \<times> json) list \<Rightarrow> string \<Rightarrow> json option" where
  "get_prop kv k = map_of kv k"

text \<open>JavaScript truthiness of a string that may be \<^verbatim>\<open>undefined\<close>, and \<^verbatim>\<open>a || b\<close>.\<close>

fun truthy_str :: "string option \<Rightarrow> bool" where
  "truthy_str None = False"
| "truthy_str (Some s) = (s \<noteq> [])"

definition str_or :: "string option \<Rightarrow> string \<Rightarrow> string" where
  "str_or a b = (case a of Some s \<Rightarrow> if s \<noteq> [] then s else b | None \<Rightarrow> b)"

definition num_or :: "rat option \<Rightarrow> rat \<Rightarrow> rat" where
  "num_or a b = (case a of Some x \<Rightarrow> if x \<noteq> 0 then x else b | None \<Rightarrow> b)"

subsection \<open>The validation schema\<close>

text \<open>
  \<^verbatim>\<open>
  const submitSchema = z.object({
    lat: z.number().min(-90).max(90),
    lon: z.number().min(-180).max(180),
    accuracy: z.number().optional(),
    timestamp: z.number().optional(),
    client_nonce: z.string().uuid(),
    message: z.string().optional(),
    photoBase64: z.string().optional(),
  })
  \<close>
  Each field parser returns \<open>None\<close> where zod records an issue. zod's own test of the
  UUID format belongs to the library, whose version the sources do not fix: it is the
  parameter \<open>uuid\<close> of the schema.
\<close>

record submission =
  lat :: rat
  lon :: rat
  accuracy :: "rat option"
  timestamp :: "rat option"
  client_nonce :: string
  message :: "string option"
  photoBase64 :: "string option"

definition z_number_min_max :: "rat \<Rightarrow> rat \<Rightarrow> json option \<Rightarrow> rat option" where
  "z_number_min_max lo hi v =
     (case v of Some (JNum x) \<Rightarrow> if lo \<le> x \<and> x \<le> hi then Some x else None
              | _ \<Rightarrow> None)"

definition z_number_optional :: "json option \<Rightarrow> rat option option" where
  "z_number_optional v =
     (case v of None \<Rightarrow> Some None
              | Some (JNum x) \<Rightarrow> Some (Some x)
              | Some _ \<Rightarrow> None)"

definition z_string_optional :: "json option \<Rightarrow> string option option" where
  "z_string_optional v =
     (case v of None \<Rightarrow> Some None
              | Some (JStr s) \<Rightarrow> Some (Some s)
              | Some _ \<Rightarrow> None)"

definition z_string_uuid :: "(string \<Rightarrow> bool) \<Rightarrow> json option \<Rightarrow> string option" where
  "z_string_uuid uuid v =
     (case v of Some (JStr s) \<Rightarrow> if uuid s then Some s else None
              | _ \<Rightarrow> None)"

definition submitSchema_parse :: "(string \<Rightarrow> bool) \<Rightarrow> json \<Rightarrow> exn + submission" where
  "submitSchema_parse uuid body =
     (case body of
        JObj kv \<Rightarrow>
          (case (z_number_min_max (- 90) 90 (get_prop kv ''lat''),
                 z_number_min_max (- 180) 180 (get_prop kv ''lon''),
                 z_number_optional (get_prop kv ''accuracy''),
                 z_number_optional (get_prop kv ''timestamp''),
                 z_string_uuid uuid (get_prop kv ''client_nonce''),
                 z_string_optional (get_prop kv ''message''),
                 z_string_optional (get_prop kv ''photoBase64'')) of
             (Some la, Some lo, Some acc, Some ts, Some nonce, Some msg, Some photo) \<Rightarrow>
               Inr \<lparr>lat = la, lon = lo, accuracy = acc, timestamp = ts,
                    client_nonce = nonce, message = msg, photoBase64 = photo\<rparr>
           | _ \<Rightarrow> Inl ZodError)
      | _ \<Rightarrow> Inl ZodError)"

subsection \<open>The bounding box\<close>

text \<open>
  \<^verbatim>\<open>
  const SF_BOUNDS = { north: 37.8324, south: 37.7049, east: -122.3482, west: -122.5277 }
  function isInSanFrancisco(lat, lon) {
    return lat >= SF_BOUNDS.south && lat <= SF_BOUNDS.north
        && lon >= SF_BOUNDS.west && lon <= SF_BOUNDS.east
  }
  \<close>
\<close>

record bounds =
  north :: rat
  south :: rat
  east :: rat
  west :: rat

definition SF_BOUNDS :: bounds where
  "SF_BOUNDS = \<lparr>north = 378324 / 10000, south = 377049 / 10000,
                 east = - (1223482 / 10000), west = - (1225277 / 10000)\<rparr>"

definition isInSanFrancisco :: "rat \<Rightarrow> rat \<Rightarrow> bool" where
  "isInSanFrancisco la lo \<longleftrightarrow>
     la \<ge> south SF_BOUNDS \<and> la \<le> north SF_BOUNDS \<and> lo \<ge> west SF_BOUNDS \<and> lo \<le> east SF_BOUNDS"

subsection \<open>Numbers and dates as text\<close>

text \<open>
  Decimal digits of a non-negative integer, without leading zeros. The computation is on
  \<open>int\<close>, whose numerals are binary.
\<close>

function show_digits :: "int \<Rightarrow> string" where
  "show_digits n =
     (if n < 10 then [char_of (48 + n)]
      else show_digits (n div 10) @ [char_of (48 + n mod 10)])"
  by pat_completeness auto
termination
  by (relation "measure nat") auto

declare show_digits.simps [simp del]

text \<open>
  The digits of a fraction \<open>0 \<le> r < 1\<close>, until the expansion ends or the budget of digits
  is used up.
\<close>

fun frac_digits :: "nat \<Rightarrow> rat \<Rightarrow> string" where
  "frac_digits 0 r = []"
| "frac_digits (Suc n) r =
     (if r = 0 then []
      else char_of (48 + \<lfloor>r * 10\<rfloor>) # frac_digits n (r * 10 - of_int \<lfloor>r * 10\<rfloor>))"

text \<open>
  \<^verbatim>\<open>String(x)\<close>, as a template literal applies it to a number. The model prints the
  sign, the integer part and the decimal expansion of the fraction. That is JavaScript's
  output for a number of magnitude between \<open>10\<^sup>-\<^sup>6\<close> and \<open>10\<^sup>2\<^sup>1\<close> with a finite
  expansion of at most 17 significant digits, and for zero, which covers what the handler
  prints this way: a coordinate rounded to four decimals, a whole number of minutes, a
  whole number of meters and an HTTP status.
\<close>

definition Number_toString :: "rat \<Rightarrow> string" where
  "Number_toString x =
     (let a = \<bar>x\<bar>; i = \<lfloor>a\<rfloor>; r = a - of_int i
      in (if x < 0 then ''-'' else [])
         @ show_digits i
         @ (if r = 0 then [] else ''.'' @ frac_digits 17 r))"

text \<open>
  \<^verbatim>\<open>x.toFixed(f)\<close> for \<open>\<bar>x\<bar> < 10\<^sup>2\<^sup>1\<close>: the sign, then the integer \<open>n\<close> nearest to
  \<open>\<bar>x\<bar> \<cdot> 10\<^sup>f\<close> (the larger one at a tie), padded with zeros to at least \<open>f + 1\<close>
  digits, with the point before the last \<open>f\<close> digits.
\<close>

definition Number_toFixed :: "nat \<Rightarrow> rat \<Rightarrow> string" where
  "Number_toFixed f x =
     (let a = \<bar>x\<bar>;
          n = \<lfloor>a * 10 ^ f + 1 / 2\<rfloor>;
          m = show_digits n;
          m' = (if length m \<le> f then replicate (f + 1 - length m) CHR ''0'' @ m else m);
          k = length m'
      in (if x < 0 then ''-'' else [])
         @ (if f = 0 then m' else take (k - f) m' @ ''.'' @ drop (k - f) m'))"

text \<open>\<^verbatim>\<open>Math.round(x)\<close>: the nearest integer, the larger one at a tie.\<close>

definition Math_round :: "rat \<Rightarrow> int" where
  "Math_round x = \<lfloor>x + 1 / 2\<rfloor>"

text \<open>\<^verbatim>\<open>Math.floor(x)\<close>.\<close>

definition Math_floor :: "rat \<Rightarrow> int" where
  "Math_floor x = \<lfloor>x\<rfloor>"

text \<open>
  \<^verbatim>\<open>new Date(v)\<close> for a number \<open>v\<close>: the time value is \<open>v\<close> truncated towards zero, and
  the date is invalid (\<open>None\<close>) when \<open>\<bar>v\<bar>\<close> exceeds \<open>8.64 \<cdot> 10\<^sup>1\<^sup>5\<close> milliseconds.
\<close>

definition new_Date :: "rat \<Rightarrow> int option" where
  "new_Date v =
     (if \<bar>v\<bar> > 8640000000000000 then None
      else Some (if v < 0 then - \<lfloor>- v\<rfloor> else \<lfloor>v\<rfloor>))"

text \<open>Left padding with zeros to a width.\<close>

definition pad0 :: "nat \<Rightarrow> int \<Rightarrow> string" where
  "pad0 w n = replicate (w - length (show_digits n)) CHR ''0'' @ show_digits n"

text \<open>
  The proleptic Gregorian date of a day number counted from 1970-01-01, by the usual
  computation on 400-year eras that start on 1 March.
\<close>

definition civil_from_days :: "int \<Rightarrow> int \<times> int \<times> int" where
  "civil_from_days days =
     (let z = days + 719468;
          era = z div 146097;
          doe = z - era * 146097;
          yoe = (doe - doe div 1460 + doe div 36524 - doe div 146096) div 365;
          y = yoe + era * 400;
          doy = doe - (365 * yoe + yoe div 4 - yoe div 100);
          mp = (5 * doy + 2) div 153;
          d = doy - (153 * mp + 2) div 5 + 1;
          m = (if mp < 10 then mp + 3 else mp - 9)
      in (if m \<le> 2 then y + 1 else y, m, d))"

text \<open>
  \<^verbatim>\<open>date.toISOString()\<close> on a valid time value \<open>t\<close> (milliseconds since the epoch, UTC):
  \<^verbatim>\<open>YYYY-MM-DDTHH:mm:ss.sssZ\<close>, the year with a sign and six digits outside 0..9999.
\<close>

definition show_year :: "int \<Rightarrow> string" where
  "show_year y =
     (if 0 \<le> y \<and> y \<le> 9999 then pad0 4 y
      else (if y < 0 then ''-'' else ''+'') @ pad0 6 \<bar>y\<bar>)"

definition toISOString :: "int \<Rightarrow> string" where
  "toISOString t =
     (let days = t div 86400000;
          ms = t mod 86400000;
          (y, m, d) = civil_from_days days
      in show_year y @ ''-'' @ pad0 2 m @ ''-'' @ pad0 2 d @ ''T''
         @ pad0 2 (ms div 3600000) @ '':'' @ pad0 2 (ms div 60000 mod 60) @ '':''
         @ pad0 2 (ms div 1000 mod 60) @ ''.'' @ pad0 3 (ms mod 1000) @ ''Z'')"

text \<open>
  \<^verbatim>\<open>new Date(v).toISOString()\<close>: a \<^verbatim>\<open>RangeError\<close> on an invalid date.
\<close>

definition Date_toISOString :: "rat \<Rightarrow> exn + string" where
  "Date_toISOString v =
     (case new_Date v of None \<Rightarrow> Inl (Error ''Invalid time value'')
                       | Some t \<Rightarrow> Inr (toISOString t))"

subsection \<open>Strings\<close>

text \<open>\<^verbatim>\<open>s.split(c)\<close> for a separator of one character: never the empty list.\<close>

fun split :: "char \<Rightarrow> string \<Rightarrow> string list" where
  "split c [] = [[]]"
| "split c (x # xs) =
     (if x = c then [] # split c xs
      else (case split c xs of y # ys \<Rightarrow> (x # y) # ys | [] \<Rightarrow> [[x]]))"

text \<open>An array read \<^verbatim>\<open>a[i]\<close>: \<^verbatim>\<open>undefined\<close> past the end.\<close>

definition at_index :: "'a list \<Rightarrow> nat \<Rightarrow> 'a option" where
  "at_index xs i = (if i < length xs then Some (xs ! i) else None)"

text \<open>
  \<^verbatim>\<open>s.trim()\<close>. The white space stripped here is the ASCII one (tab, line feed, vertical
  tab, form feed, carriage return, space); the template trimmed by the handler begins and
  ends with ASCII text of its own.
\<close>

definition is_space :: "char \<Rightarrow> bool" where
  "is_space c \<longleftrightarrow> c \<in> {CHR 0x09, CHR 0x0A, CHR 0x0B, CHR 0x0C, CHR 0x0D, CHR '' ''}"

definition trim :: "string \<Rightarrow> string" where
  "trim s = rev (dropWhile is_space (rev (dropWhile is_space s)))"

subsection \<open>Configuration, transport and trace\<close>

text \<open>The environment variables the handler reads; \<open>None\<close> is an unset variable.\<close>

record env =
  RESEND_API_KEY :: "string option"
  SENDER_EMAIL :: "string option"
  CITY_OPERATIONS_EMAIL :: "string option"

record attachment =
  filename :: string
  content :: "string option"

text \<open>The JSON body sent to the transport (\<^verbatim>\<open>from\<close>, \<^verbatim>\<open>to\<close>, \<^verbatim>\<open>subject\<close>, \<^verbatim>\<open>text\<close>, \<^verbatim>\<open>attachments\<close>).\<close>

record emailPayload =
  from_addr :: string
  to_addr :: string
  subject :: string
  text_body :: string
  attachments :: "attachment list"

text \<open>
  One call \<^verbatim>\<open>fetch("https://api.resend.com/emails", {method: "POST", ...})\<close>: the
  bearer header and the body.
\<close>

record fetch_request =
  authorization :: string
  payload :: emailPayload

text \<open>
  What the call comes to. \<open>Rejected m\<close>: the promise rejects with an error of message
  \<open>m\<close> (no connection, or the 15 second \<^verbatim>\<open>AbortSignal.timeout\<close> fired).
  \<open>Responded st txt js\<close>: a response of status \<open>st\<close>, on which \<^verbatim>\<open>response.text()\<close>
  yields \<open>txt\<close> and \<^verbatim>\<open>response.json()\<close> yields \<open>js\<close> (\<open>Inl\<close> with the message
  of the \<^verbatim>\<open>SyntaxError\<close> when the body does not parse).
\<close>

datatype fetch_result =
    Rejected string
  | Responded nat string "string + json"

definition response_ok :: "nat \<Rightarrow> bool" where
  "response_ok st \<longleftrightarrow> 200 \<le> st \<and> st \<le> 299"

text \<open>
  The trace. \<^verbatim>\<open>logWithCorrelation\<close> writes one line per call; an event keeps its
  correlation identifier, level and message (the line's own timestamp and its data
  payload go to the console only and are left out).
\<close>

datatype level = Info | Warn | Err

datatype event =
    Log string level string
  | Fetch fetch_request

fun is_fetch :: "event \<Rightarrow> bool" where
  "is_fetch (Fetch _) = True"
| "is_fetch (Log _ _ _) = False"

text \<open>How many times the transport was called in a trace.\<close>

definition transport_calls :: "event list \<Rightarrow> nat" where
  "transport_calls evs = length (filter is_fetch evs)"

subsection \<open>Formatting and sending the report\<close>

text \<open>
  \<^verbatim>\<open>
  const attachments = []
  if (data.photoBase64) {
    const base64Data = data.photoBase64.split(",")[1]
    attachments.push({ filename: "photo.jpg", content: base64Data })
  }
  \<close>
\<close>

definition attachments_of :: "submission \<Rightarrow> attachment list" where
  "attachments_of d =
     (case photoBase64 d of
        None \<Rightarrow> []
      | Some p \<Rightarrow>
          if p \<noteq> [] then [\<lparr>filename = ''photo.jpg'', content = at_index (split CHR '','' p) 1\<rparr>]
          else [])"

text \<open>The dash of the subject line (U+2014) and the plus-minus sign (U+00B1), in UTF-8.\<close>

definition em_dash :: string where
  "em_dash = [CHR 0xE2, CHR 0x80, CHR 0x94]"

definition plus_minus :: string where
  "plus_minus = [CHR 0xC2, CHR 0xB1]"

definition subject_of :: "submission \<Rightarrow> string" where
  "subject_of d =
     ''Litter report '' @ em_dash @ '' '' @ Number_toFixed 6 (lat d) @ '','' @ Number_toFixed 6 (lon d)
       @ '' '' @ em_dash @ '' QR Reporter''"

text \<open>
  \<^verbatim>\<open>data.accuracy ? `(\<plusminus>${Math.round(data.accuracy)}m)` : ""\<close>
\<close>

definition accuracy_note :: "submission \<Rightarrow> string" where
  "accuracy_note d =
     (case accuracy d of
        None \<Rightarrow> []
      | Some a \<Rightarrow>
          if a \<noteq> 0 then ''('' @ plus_minus @ Number_toString (of_int (Math_round a)) @ ''m)''
          else [])"

text \<open>
  The template literal of the \<^verbatim>\<open>text\<close> field, before \<^verbatim>\<open>.trim()\<close>; \<open>stamp\<close> is the
  formatted date. It opens with a line feed and closes with a line feed and the six
  spaces that indent the closing back-tick in the source.
\<close>

definition text_template :: "string \<Rightarrow> submission \<Rightarrow> string \<Rightarrow> string" where
  "text_template stamp d correlationId =
     ''\<newline>Source: QR-Driven Garbage Reporting Webapp\<newline>When: '' @ stamp
     @ ''\<newline>Where: '' @ Number_toFixed 6 (lat d) @ '','' @ Number_toFixed 6 (lon d)
     @ '' '' @ accuracy_note d
     @ ''\<newline>Report ID: '' @ client_nonce d
     @ ''\<newline>Correlation ID: '' @ correlationId
     @ ''\<newline>\<newline>---\<newline>User Message:\<newline>'' @ str_or (message d) ''No message provided.''
     @ ''\<newline>---\<newline>      ''"

text \<open>
  The object literal \<^verbatim>\<open>emailPayload\<close>. \<^verbatim>\<open>new Date(data.timestamp || Date.now()).toISOString()\<close>
  throws on an invalid date; \<open>now\<close> is the reading of the clock taken there.
\<close>

definition emailPayload_of :: "env \<Rightarrow> int \<Rightarrow> submission \<Rightarrow> string \<Rightarrow> exn + emailPayload" where
  "emailPayload_of cfg now d correlationId =
     (case Date_toISOString (num_or (timestamp d) (of_int now)) of
        Inl e \<Rightarrow> Inl e
      | Inr stamp \<Rightarrow>
          Inr \<lparr>from_addr = str_or (SENDER_EMAIL cfg) ''reports@qr-garbage-reporter.com'',
               to_addr = str_or (CITY_OPERATIONS_EMAIL cfg) ''operations@sf.gov'',
               subject = subject_of d,
               text_body = trim (text_template stamp d correlationId),
               attachments = attachments_of d\<rparr>)"

text \<open>
  \<^verbatim>\<open>result.id\<close> on the parsed answer of the transport: a \<^verbatim>\<open>TypeError\<close> on
  \<^verbatim>\<open>null\<close>, the member of an object, \<^verbatim>\<open>undefined\<close> on anything else.
\<close>

fun result_id :: "json \<Rightarrow> exn + json option" where
  "result_id JNull = Inl (Error ''Cannot read properties of null (reading 'id')'')"
| "result_id (JObj kv) = Inr (get_prop kv ''id'')"
| "result_id _ = Inr None"

text \<open>The value \<^verbatim>\<open>sendEmailReport\<close> resolves to.\<close>

record emailResult =
  success :: bool
  reference :: "json option"
  error :: "string option"

text \<open>
  The \<^verbatim>\<open>try\<close> block of \<^verbatim>\<open>sendEmailReport\<close> (lines 44 to 101): what it returns or
  throws, and what it did.
\<close>

definition sendEmailReport_try ::
    "env \<Rightarrow> (fetch_request \<Rightarrow> fetch_result) \<Rightarrow> int \<Rightarrow> submission \<Rightarrow> string
      \<Rightarrow> (exn + json option) \<times> event list" where
  "sendEmailReport_try cfg fetch now d correlationId =
     (case RESEND_API_KEY cfg of
        None \<Rightarrow> (Inl (Error ''RESEND_API_KEY not configured''), [])
      | Some key \<Rightarrow>
          if key = [] then (Inl (Error ''RESEND_API_KEY not configured''), [])
          else
            (case emailPayload_of cfg now d correlationId of
               Inl e \<Rightarrow> (Inl e, [])
             | Inr p \<Rightarrow>
                 let rq = \<lparr>authorization = ''Bearer '' @ key, payload = p\<rparr>
                 in (case fetch rq of
                       Rejected m \<Rightarrow> (Inl (Error m), [Fetch rq])
                     | Responded st txt js \<Rightarrow>
                         if \<not> response_ok st
                         then (Inl (Error (''Email API error: '' @ Number_toString (of_nat st)
                                            @ '' '' @ txt)), [Fetch rq])
                         else
                           (case js of
                              Inl m \<Rightarrow> (Inl (Error m), [Fetch rq])
                            | Inr result \<Rightarrow>
                                (case result_id result of
                                   Inl e \<Rightarrow> (Inl e, [Fetch rq])
                                 | Inr ident \<Rightarrow>
                                     (Inr ident,
                                      [Fetch rq,
                                       Log correlationId Info ''Email sent successfully'']))))))"

text \<open>\<^verbatim>\<open>sendEmailReport\<close>: the \<^verbatim>\<open>try\<close> block with its \<^verbatim>\<open>catch\<close>.\<close>

definition sendEmailReport ::
    "env \<Rightarrow> (fetch_request \<Rightarrow> fetch_result) \<Rightarrow> int \<Rightarrow> submission \<Rightarrow> string
      \<Rightarrow> emailResult \<times> event list" where
  "sendEmailReport cfg fetch now d correlationId =
     (case sendEmailReport_try cfg fetch now d correlationId of
        (Inr ident, evs) \<Rightarrow> (\<lparr>success = True, reference = ident, error = None\<rparr>, evs)
      | (Inl e, evs) \<Rightarrow>
          (\<lparr>success = False, reference = None, error = Some (exn_message e)\<rparr>,
           evs @ [Log correlationId Err ''Failed to send email'']))"

subsection \<open>The idempotency store\<close>

text \<open>The two shapes of a response body.\<close>

datatype response_body =
    SuccessBody "json option"
  | ErrorBody string string

text \<open>
  \<^verbatim>\<open>const recentSubmissions = new Map<string, { timestamp: number; response: any }>()\<close>
\<close>

record entry =
  entry_timestamp :: int
  entry_response :: response_body

type_synonym store = "string \<rightharpoonup> entry"

text \<open>
  \<^verbatim>\<open>
  function getIdempotencyKey(data) {
    const roundedLat = Math.round(data.lat * 10000) / 10000
    const roundedLon = Math.round(data.lon * 10000) / 10000
    const minuteBucket = Math.floor(Date.now() / 60000)
    return `${roundedLat},${roundedLon},${minuteBucket},${data.client_nonce}`
  }
  \<close>
  \<open>now\<close> is the reading of the clock taken inside.
\<close>

definition roundedLat :: "submission \<Rightarrow> rat" where
  "roundedLat d = of_int (Math_round (lat d * 10000)) / 10000"

definition roundedLon :: "submission \<Rightarrow> rat" where
  "roundedLon d = of_int (Math_round (lon d * 10000)) / 10000"

definition minuteBucket :: "int \<Rightarrow> int" where
  "minuteBucket now = Math_floor (of_int now / 60000)"

definition getIdempotencyKey :: "int \<Rightarrow> submission \<Rightarrow> string" where
  "getIdempotencyKey now d =
     Number_toString (roundedLat d) @ '','' @ Number_toString (roundedLon d) @ '',''
       @ Number_toString (of_int (minuteBucket now)) @ '','' @ client_nonce d"

text \<open>
  \<^verbatim>\<open>existing && Date.now() - existing.timestamp < 300000\<close>: the entry found, when
  the test holds.
\<close>

definition live :: "entry option \<Rightarrow> int \<Rightarrow> entry option" where
  "live existing now =
     (case existing of
        None \<Rightarrow> None
      | Some e \<Rightarrow> if now - entry_timestamp e < 300000 then Some e else None)"

text \<open>
  The sweep of lines 172 to 177: every entry older than the cutoff is deleted.
\<close>

definition sweep :: "int \<Rightarrow> store \<Rightarrow> store" where
  "sweep cutoff s =
     (\<lambda>k. case s k of
            None \<Rightarrow> None
          | Some v \<Rightarrow> if entry_timestamp v < cutoff then None else Some v)"

subsection \<open>The handler\<close>

text \<open>
  What one request reads from outside, a field for each read in the order of the source:
  \<^verbatim>\<open>crypto.randomUUID()\<close> (line 119), \<^verbatim>\<open>Date.now()\<close> in \<^verbatim>\<open>getIdempotencyKey\<close> (114),
  in the lookup (137), in the report (65), at the write (168) and at the sweep (172),
  \<^verbatim>\<open>Math.random()\<close> (171) and the transport behind \<^verbatim>\<open>fetch\<close> (78).
\<close>

record world =
  randomUUID :: string
  now_key :: int
  now_lookup :: int
  now_when :: int
  now_write :: int
  now_cutoff :: int
  random :: rat
  fetch :: "fetch_request \<Rightarrow> fetch_result"

record http_response =
  status :: nat
  body :: response_body

record outcome =
  response :: http_response
  store_after :: store
  events :: "event list"

text \<open>
  The \<^verbatim>\<open>try\<close> block of \<^verbatim>\<open>POST\<close> (lines 123 to 186). \<open>req\<close> is what
  \<^verbatim>\<open>await request.json()\<close> yields: the parsed body, or the message of the error thrown
  on a body that is not JSON. The bounds check of lines 144 to 154 is commented out in the source and
  has no counterpart here.
\<close>

definition POST_try ::
    "(string \<Rightarrow> bool) \<Rightarrow> env \<Rightarrow> world \<Rightarrow> store \<Rightarrow> string + json
      \<Rightarrow> (exn + http_response) \<times> store \<times> event list" where
  "POST_try uuid cfg w s req =
     (let correlationId = randomUUID w;
          started = [Log correlationId Info ''Report submission started'']
      in case req of
           Inl m \<Rightarrow> (Inl (Error m), s, started)
         | Inr json_body \<Rightarrow>
             (case submitSchema_parse uuid json_body of
                Inl e \<Rightarrow> (Inl e, s, started)
              | Inr validatedData \<Rightarrow>
                  (let idempotencyKey = getIdempotencyKey (now_key w) validatedData;
                       existing = s idempotencyKey
                   in case live existing (now_lookup w) of
                        Some e \<Rightarrow>
                          (Inr \<lparr>status = 200, body = entry_response e\<rparr>, s,
                           started @ [Log correlationId Info ''Duplicate submission detected''])
                      | None \<Rightarrow>
                          (case sendEmailReport cfg (fetch w) (now_when w) validatedData
                                  correlationId of
                             (emailResult, sent) \<Rightarrow>
                               if \<not> success emailResult
                               then (Inl (Error (str_or (error emailResult)
                                                  ''Failed to send report email.'')),
                                     s, started @ sent)
                               else
                                 (let resp = SuccessBody (reference emailResult);
                                      s1 = s(idempotencyKey \<mapsto>
                                             \<lparr>entry_timestamp = now_write w,
                                              entry_response = resp\<rparr>);
                                      s2 = (if random w < 1 / 100
                                            then sweep (now_cutoff w - 300000) s1 else s1)
                                  in (Inr \<lparr>status = 200, body = resp\<rparr>, s2,
                                      started @ sent
                                        @ [Log correlationId Info
                                             ''Report submission completed'']))))))"

text \<open>
  \<^verbatim>\<open>POST\<close>: the \<^verbatim>\<open>try\<close> block with its \<^verbatim>\<open>catch\<close> (lines 187 to 206), which logs and
  answers 400 on a \<^verbatim>\<open>ZodError\<close> and 500 on anything else.
\<close>

definition POST :: "(string \<Rightarrow> bool) \<Rightarrow> env \<Rightarrow> world \<Rightarrow> store \<Rightarrow> string + json \<Rightarrow> outcome" where
  "POST uuid cfg w s req =
     (case POST_try uuid cfg w s req of
        (Inr r, s', evs) \<Rightarrow> \<lparr>response = r, store_after = s', events = evs\<rparr>
      | (Inl e, s', evs) \<Rightarrow>
          \<lparr>response =
             (if e = ZodError
              then \<lparr>status = 400, body = ErrorBody ''bad_request'' ''Invalid request data''\<rparr>
              else \<lparr>status = 500, body = ErrorBody ''server_error'' ''Internal server error''\<rparr>),
           store_after = s',
           events = evs @ [Log (randomUUID w) Err ''API error'']\<rparr>)"

subsection \<open>A history of requests\<close>

text \<open>
  The store lives as long as the process: the store a request finds is the one its
  predecessors left. A request is the configuration in force, what it reads from outside
  and its body.
\<close>

type_synonym request = "env \<times> world \<times> (string + json)"

definition serve :: "(string \<Rightarrow> bool) \<Rightarrow> store \<Rightarrow> request list \<Rightarrow> store" where
  "serve uuid s rs = foldl (\<lambda>s' (cfg, w, req). store_after (POST uuid cfg w s' req)) s rs"

subsection \<open>Example data\<close>

text \<open>
  A UUID test to run the schema with: five groups of 8, 4, 4, 4 and 12 hexadecimal
  digits, separated by dashes.
\<close>

definition is_hex :: "char \<Rightarrow> bool" where
  "is_hex c \<longleftrightarrow> c \<in> set ''0123456789abcdefABCDEF''"

definition uuid_shape :: "string \<Rightarrow> bool" where
  "uuid_shape s \<longleftrightarrow>
     (case split CHR ''-'' s of
        [a, b, c, d, e] \<Rightarrow>
          map length [a, b, c, d, e] = [8, 4, 4, 4, 12] \<and> list_all is_hex (a @ b @ c @ d @ e)
      | _ \<Rightarrow> False)"

text \<open>
  The payload of the specification's scenario,
  \<^verbatim>\<open>{lat: 37.7749, lon: -122.4194, accuracy: 10, client_nonce: "a0d4b216-...", message: "Boxes behind bus stop"}\<close>,
  and what the schema makes of it.
\<close>

definition example_fields :: "(string \<times> json) list" where
  "example_fields =
     [(''lat'', JNum (377749 / 10000)), (''lon'', JNum (- (1224194 / 10000))),
      (''accuracy'', JNum 10),
      (''client_nonce'', JStr ''a0d4b216-f4cf-4219-822b-f83e49a6cccb''),
      (''message'', JStr ''Boxes behind bus stop'')]"

definition example_data :: submission where
  "example_data =
     \<lparr>lat = 377749 / 10000, lon = - (1224194 / 10000), accuracy = Some 10, timestamp = None,
      client_nonce = ''a0d4b216-f4cf-4219-822b-f83e49a6cccb'',
      message = Some ''Boxes behind bus stop'', photoBase64 = None\<rparr>"

text \<open>A configuration with a key, and a transport that answers \<^verbatim>\<open>{id: "email_123"}\<close>.\<close>

definition example_env :: env where
  "example_env =
     \<lparr>RESEND_API_KEY = Some ''re_test'', SENDER_EMAIL = None, CITY_OPERATIONS_EMAIL = None\<rparr>"

definition healthy :: "fetch_request \<Rightarrow> fetch_result" where
  "healthy rq = Responded 200 [] (Inr (JObj [(''id'', JStr ''email_123'')]))"

text \<open>A request served on 8 January 2025, 04:36:35 UTC, with no sweep.\<close>

definition example_world :: world where
  "example_world =
     \<lparr>randomUUID = ''5b0c2f0e-3d1a-4c7e-9f65-2a8d4e1b7c90'',
      now_key = 1736310995643, now_lookup = 1736310995643, now_when = 1736310995644,
      now_write = 1736310995900, now_cutoff = 1736310995900,
      random = 1 / 2, fetch = healthy\<rparr>"

text \<open>The key of the example: the minute is number 28938516 since the epoch.\<close>

definition example_key :: string where
  "example_key = ''37.7749,-122.4194,28938516,a0d4b216-f4cf-4219-822b-f83e49a6cccb''"

text \<open>The report of the example, as the transport receives it.\<close>

definition example_payload :: emailPayload where
  "example_payload =
     \<lparr>from_addr = ''reports@qr-garbage-reporter.com'',
      to_addr = ''operations@sf.gov'',
      subject = ''Litter report '' @ em_dash @ '' 37.774900,-122.419400 '' @ em_dash @ '' QR Reporter'',
      text_body =
        ''Source: QR-Driven Garbage Reporting Webapp\<newline>When: 2025-01-08T04:36:35.644Z\<newline>Where: 37.774900,-122.419400 (''
        @ plus_minus
        @ ''10m)\<newline>Report ID: a0d4b216-f4cf-4219-822b-f83e49a6cccb\<newline>Correlation ID: 5b0c2f0e-3d1a-4c7e-9f65-2a8d4e1b7c90\<newline>\<newline>---\<newline>User Message:\<newline>Boxes behind bus stop\<newline>---'',
      attachments = []\<rparr>"

definition example_call :: fetch_request where
  "example_call = \<lparr>authorization = ''Bearer re_test'', payload = example_payload\<rparr>"

text \<open>Transports that fail: one that times out, one that answers 503.\<close>

definition timing_out :: "fetch_request \<Rightarrow> fetch_result" where
  "timing_out rq = Rejected ''The operation was aborted due to timeout''"

definition unavailable :: "fetch_request \<Rightarrow> fetch_result" where
  "unavailable rq = Responded 503 ''Service Unavailable'' (Inl ''Unexpected token'')"

text \<open>Variations of the payload: a latitude of 200, an accuracy of -5, an accuracy given as text.\<close>

definition lat_200_fields :: "(string \<times> json) list" where
  "lat_200_fields =
     [(''lat'', JNum 200), (''lon'', JNum (- (1224194 / 10000))),
      (''client_nonce'', JStr ''a0d4b216-f4cf-4219-822b-f83e49a6cccb'')]"

definition negative_accuracy_fields :: "(string \<times> json) list" where
  "negative_accuracy_fields =
     [(''lat'', JNum (377749 / 10000)), (''lon'', JNum (- (1224194 / 10000))),
      (''accuracy'', JNum (- 5)),
      (''client_nonce'', JStr ''a0d4b216-f4cf-4219-822b-f83e49a6cccb'')]"

definition negative_accuracy_data :: submission where
  "negative_accuracy_data =
     \<lparr>lat = 377749 / 10000, lon = - (1224194 / 10000), accuracy = Some (- 5), timestamp = None,
      client_nonce = ''a0d4b216-f4cf-4219-822b-f83e49a6cccb'',
      message = None, photoBase64 = None\<rparr>"

definition textual_accuracy_fields :: "(string \<times> json) list" where
  "textual_accuracy_fields =
     [(''lat'', JNum (377749 / 10000)), (''lon'', JNum (- (1224194 / 10000))),
      (''accuracy'', JStr ''10''),
      (''client_nonce'', JStr ''a0d4b216-f4cf-4219-822b-f83e49a6cccb'')]"

text \<open>
  The example request again ten seconds later, in the same minute, and the store the
  first one leaves behind.
\<close>

definition ten_seconds_later :: world where
  "ten_seconds_later =
     \<lparr>randomUUID = ''0e9d7a64-51c3-4f2b-8a17-6cb3f0d2e845'',
      now_key = 1736311005643, now_lookup = 1736311005643, now_when = 1736311005644,
      now_write = 1736311005900, now_cutoff = 1736311005900,
      random = 1 / 2, fetch = healthy\<rparr>"

definition example_store :: store where
  "example_store =
     [example_key \<mapsto>
        \<lparr>entry_timestamp = 1736310995900,
         entry_response = SuccessBody (Some (JStr ''email_123''))\<rparr>]"

text \<open>
  A request that computes its key in the minute of the example and reaches the lookup
  five minutes after the entry was written.
\<close>

definition stalled :: world where
  "stalled =
     \<lparr>randomUUID = ''7f3a1c58-9e02-4d6b-b1a4-35c8e2f09d17'',
      now_key = 1736311005643, now_lookup = 1736311295900, now_when = 1736311295901,
      now_write = 1736311296200, now_cutoff = 1736311296200,
      random = 1 / 2, fetch = healthy\<rparr>"

text \<open>A valid payload from outside the bounding box: latitude 0, longitude 0.\<close>

definition null_island_fields :: "(string \<times> json) list" where
  "null_island_fields =
     [(''lat'', JNum 0), (''lon'', JNum 0),
      (''client_nonce'', JStr ''a0d4b216-f4cf-4219-822b-f83e49a6cccb'')]"

definition null_island_data :: submission where
  "null_island_data =
     \<lparr>lat = 0, lon = 0, accuracy = None, timestamp = None,
      client_nonce = ''a0d4b216-f4cf-4219-822b-f83e49a6cccb'',
      message = None, photoBase64 = None\<rparr>"

text \<open>The example with an accuracy of 0, and with a photo.\<close>

definition zero_accuracy_data :: submission where
  "zero_accuracy_data = example_data\<lparr>accuracy := Some 0\<rparr>"

definition zero_accuracy_text :: string where
  "zero_accuracy_text =
     ''Source: QR-Driven Garbage Reporting Webapp\<newline>When: 2025-01-08T04:36:35.644Z\<newline>Where: 37.774900,-122.419400 \<newline>Report ID: a0d4b216-f4cf-4219-822b-f83e49a6cccb\<newline>Correlation ID: 5b0c2f0e-3d1a-4c7e-9f65-2a8d4e1b7c90\<newline>\<newline>---\<newline>User Message:\<newline>Boxes behind bus stop\<newline>---''"



section \<open>Properties\<close>

subsection \<open>Validation and the paths of the handler\<close>

lemma parse_error_is_zod: "submitSchema_parse uuid b = Inl e \<Longrightarrow> e = ZodError"
  by (auto simp: submitSchema_parse_def split: json.splits option.splits)

lemma parse_not_object: "(\<forall>kv. b \<noteq> JObj kv) \<Longrightarrow> submitSchema_parse uuid b = Inl ZodError"
  by (cases b) (auto simp: submitSchema_parse_def)

lemma parse_Inr_iff:
  "submitSchema_parse uuid (JObj kv) = Inr d \<longleftrightarrow>
     z_number_min_max (- 90) 90 (get_prop kv ''lat'') = Some (lat d) \<and>
     z_number_min_max (- 180) 180 (get_prop kv ''lon'') = Some (lon d) \<and>
     z_number_optional (get_prop kv ''accuracy'') = Some (accuracy d) \<and>
     z_number_optional (get_prop kv ''timestamp'') = Some (timestamp d) \<and>
     z_string_uuid uuid (get_prop kv ''client_nonce'') = Some (client_nonce d) \<and>
     z_string_optional (get_prop kv ''message'') = Some (message d) \<and>
     z_string_optional (get_prop kv ''photoBase64'') = Some (photoBase64 d)"
  by (cases d) (auto simp: submitSchema_parse_def split: option.splits)

lemma parse_Inl_iff:
  "submitSchema_parse uuid (JObj kv) = Inl ZodError \<longleftrightarrow>
     z_number_min_max (- 90) 90 (get_prop kv ''lat'') = None \<or>
     z_number_min_max (- 180) 180 (get_prop kv ''lon'') = None \<or>
     z_number_optional (get_prop kv ''accuracy'') = None \<or>
     z_number_optional (get_prop kv ''timestamp'') = None \<or>
     z_string_uuid uuid (get_prop kv ''client_nonce'') = None \<or>
     z_string_optional (get_prop kv ''message'') = None \<or>
     z_string_optional (get_prop kv ''photoBase64'') = None"
  by (auto simp: submitSchema_parse_def split: option.splits)

lemma POST_invalid:
  assumes "submitSchema_parse uuid b = Inl e"
  shows "POST uuid cfg w s (Inr b) =
           \<lparr>response = \<lparr>status = 400, body = ErrorBody ''bad_request'' ''Invalid request data''\<rparr>,
            store_after = s,
            events = [Log (randomUUID w) Info ''Report submission started'',
                      Log (randomUUID w) Err ''API error'']\<rparr>"
  using assms parse_error_is_zod [OF assms] by (simp add: POST_def POST_try_def Let_def)

lemma POST_hit:
  assumes "submitSchema_parse uuid b = Inr d"
    and "s (getIdempotencyKey (now_key w) d) = Some e"
    and "now_lookup w - entry_timestamp e < 300000"
  shows "POST uuid cfg w s (Inr b) =
           \<lparr>response = \<lparr>status = 200, body = entry_response e\<rparr>,
            store_after = s,
            events = [Log (randomUUID w) Info ''Report submission started'',
                      Log (randomUUID w) Info ''Duplicate submission detected'']\<rparr>"
  using assms by (simp add: POST_def POST_try_def live_def Let_def)

lemma POST_miss_failed:
  assumes "submitSchema_parse uuid b = Inr d"
    and "live (s (getIdempotencyKey (now_key w) d)) (now_lookup w) = None"
    and "sendEmailReport cfg (fetch w) (now_when w) d (randomUUID w) = (r, sent)"
    and "\<not> success r"
  shows "POST uuid cfg w s (Inr b) =
           \<lparr>response = \<lparr>status = 500, body = ErrorBody ''server_error'' ''Internal server error''\<rparr>,
            store_after = s,
            events = [Log (randomUUID w) Info ''Report submission started''] @ sent
                      @ [Log (randomUUID w) Err ''API error'']\<rparr>"
  using assms by (simp add: POST_def POST_try_def Let_def)

lemma POST_miss_sent:
  assumes "submitSchema_parse uuid b = Inr d"
    and "live (s (getIdempotencyKey (now_key w) d)) (now_lookup w) = None"
    and "sendEmailReport cfg (fetch w) (now_when w) d (randomUUID w) = (r, sent)"
    and "success r"
  shows "POST uuid cfg w s (Inr b) =
           \<lparr>response = \<lparr>status = 200, body = SuccessBody (reference r)\<rparr>,
            store_after =
              (let s1 = s(getIdempotencyKey (now_key w) d \<mapsto>
                          \<lparr>entry_timestamp = now_write w, entry_response = SuccessBody (reference r)\<rparr>)
               in if random w < 1 / 100 then sweep (now_cutoff w - 300000) s1 else s1),
            events = [Log (randomUUID w) Info ''Report submission started''] @ sent
                      @ [Log (randomUUID w) Info ''Report submission completed'']\<rparr>"
  using assms by (simp add: POST_def POST_try_def Let_def)

lemma send_no_key:
  assumes "\<not> truthy_str (RESEND_API_KEY cfg)"
  shows "sendEmailReport cfg f now d cid =
           (\<lparr>success = False, reference = None, error = Some ''RESEND_API_KEY not configured''\<rparr>,
            [Log cid Err ''Failed to send email''])"
  using assms by (cases "RESEND_API_KEY cfg") (simp_all add: sendEmailReport_def sendEmailReport_try_def)

lemma send_unformatted:
  assumes "truthy_str (RESEND_API_KEY cfg)" and "emailPayload_of cfg now d cid = Inl e"
  shows "sendEmailReport cfg f now d cid =
           (\<lparr>success = False, reference = None, error = Some (exn_message e)\<rparr>,
            [Log cid Err ''Failed to send email''])"
  using assms by (cases "RESEND_API_KEY cfg") (simp_all add: sendEmailReport_def sendEmailReport_try_def)

lemma send_rejected:
  assumes "RESEND_API_KEY cfg = Some k" and "k \<noteq> []"
    and "emailPayload_of cfg now d cid = Inr p"
    and "f \<lparr>authorization = ''Bearer '' @ k, payload = p\<rparr> = Rejected m"
  shows "sendEmailReport cfg f now d cid =
           (\<lparr>success = False, reference = None, error = Some m\<rparr>,
            [Fetch \<lparr>authorization = ''Bearer '' @ k, payload = p\<rparr>,
             Log cid Err ''Failed to send email''])"
  using assms by (simp add: sendEmailReport_def sendEmailReport_try_def Let_def)

lemma send_not_ok:
  assumes "RESEND_API_KEY cfg = Some k" and "k \<noteq> []"
    and "emailPayload_of cfg now d cid = Inr p"
    and "f \<lparr>authorization = ''Bearer '' @ k, payload = p\<rparr> = Responded st txt js"
    and "\<not> response_ok st"
  shows "sendEmailReport cfg f now d cid =
           (\<lparr>success = False, reference = None,
             error = Some (''Email API error: '' @ Number_toString (of_nat st) @ '' '' @ txt)\<rparr>,
            [Fetch \<lparr>authorization = ''Bearer '' @ k, payload = p\<rparr>,
             Log cid Err ''Failed to send email''])"
  using assms by (simp add: sendEmailReport_def sendEmailReport_try_def Let_def)

lemma send_ok:
  assumes "RESEND_API_KEY cfg = Some k" and "k \<noteq> []"
    and "emailPayload_of cfg now d cid = Inr p"
    and "f \<lparr>authorization = ''Bearer '' @ k, payload = p\<rparr> = Responded st txt (Inr result)"
    and "response_ok st" and "result_id result = Inr ident"
  shows "sendEmailReport cfg f now d cid =
           (\<lparr>success = True, reference = ident, error = None\<rparr>,
            [Fetch \<lparr>authorization = ''Bearer '' @ k, payload = p\<rparr>,
             Log cid Info ''Email sent successfully''])"
  using assms by (simp add: sendEmailReport_def sendEmailReport_try_def Let_def)

lemma send_calls_le_1: "transport_calls (snd (sendEmailReport cfg f now d cid)) \<le> 1"
  by (simp add: sendEmailReport_def sendEmailReport_try_def Let_def transport_calls_def
      split: option.splits sum.splits fetch_result.splits)

lemma send_reaches_transport:
  assumes "RESEND_API_KEY cfg = Some k" and "k \<noteq> []"
    and "emailPayload_of cfg now d cid = Inr p"
  shows "\<exists>rest. snd (sendEmailReport cfg f now d cid) =
            Fetch \<lparr>authorization = ''Bearer '' @ k, payload = p\<rparr> # rest
          \<and> transport_calls rest = 0"
  using assms
  by (simp add: sendEmailReport_def sendEmailReport_try_def Let_def transport_calls_def
      split: option.splits sum.splits fetch_result.splits)

lemma send_success_calls:
  assumes "success (fst (sendEmailReport cfg f now d cid))"
  shows "transport_calls (snd (sendEmailReport cfg f now d cid)) = 1"
  using assms
  by (simp add: sendEmailReport_def sendEmailReport_try_def Let_def transport_calls_def
      split: option.splits sum.splits fetch_result.splits if_splits)

lemma send_success_key:
  assumes "success (fst (sendEmailReport cfg f now d cid))"
  shows "truthy_str (RESEND_API_KEY cfg)"
  using assms
  by (simp add: sendEmailReport_def sendEmailReport_try_def Let_def
      split: option.splits sum.splits fetch_result.splits if_splits)

lemma transport_calls_append [simp]:
  "transport_calls (xs @ ys) = transport_calls xs + transport_calls ys"
  by (simp add: transport_calls_def)

lemma transport_calls_Log [simp]: "transport_calls (Log c l m # xs) = transport_calls xs"
  by (simp add: transport_calls_def)

lemma transport_calls_Fetch [simp]: "transport_calls (Fetch rq # xs) = Suc (transport_calls xs)"
  by (simp add: transport_calls_def)

lemma transport_calls_Nil [simp]: "transport_calls [] = 0"
  by (simp add: transport_calls_def)


lemma live_None_iff:
  "live x now = None \<longleftrightarrow> (x = None \<or> (\<exists>e. x = Some e \<and> 300000 \<le> now - entry_timestamp e))"
  by (auto simp: live_def split: option.splits)

lemma POST_transport_failure:
  assumes "submitSchema_parse uuid b = Inr d"
    and "live (s (getIdempotencyKey (now_key w) d)) (now_lookup w) = None"
    and "RESEND_API_KEY cfg = Some k" and "k \<noteq> []"
    and "emailPayload_of cfg (now_when w) d (randomUUID w) = Inr p"
    and "(\<exists>m. fetch w \<lparr>authorization = ''Bearer '' @ k, payload = p\<rparr> = Rejected m)
       \<or> (\<exists>st txt js. fetch w \<lparr>authorization = ''Bearer '' @ k, payload = p\<rparr> = Responded st txt js
             \<and> \<not> response_ok st)"
  shows "POST uuid cfg w s (Inr b) =
           \<lparr>response = \<lparr>status = 500, body = ErrorBody ''server_error'' ''Internal server error''\<rparr>,
            store_after = s,
            events = [Log (randomUUID w) Info ''Report submission started'',
                      Fetch \<lparr>authorization = ''Bearer '' @ k, payload = p\<rparr>,
                      Log (randomUUID w) Err ''Failed to send email'',
                      Log (randomUUID w) Err ''API error'']\<rparr>"
proof -
  let ?rq = "\<lparr>authorization = ''Bearer '' @ k, payload = p\<rparr>"
  consider (rejected) m where "fetch w ?rq = Rejected m"
    | (not_ok) st answer js where "fetch w ?rq = Responded st answer js" and "\<not> response_ok st"
    using assms(6) by blast
  then show ?thesis
  proof cases
    case rejected
    from POST_miss_failed [where s = s and w = w and cfg = cfg, OF assms(1,2)
        send_rejected [where f = "fetch w", OF assms(3,4,5) rejected]]
    show ?thesis by simp
  next
    case not_ok
    from POST_miss_failed [where s = s and w = w and cfg = cfg, OF assms(1,2)
        send_not_ok [where f = "fetch w", OF assms(3,4,5) not_ok]]
    show ?thesis by simp
  qed
qed

lemma POST_reaches_transport:
  assumes "submitSchema_parse uuid b = Inr d"
    and "live (s (getIdempotencyKey (now_key w) d)) (now_lookup w) = None"
    and "RESEND_API_KEY cfg = Some k" and "k \<noteq> []"
    and "emailPayload_of cfg (now_when w) d (randomUUID w) = Inr p"
  shows "transport_calls (events (POST uuid cfg w s (Inr b))) = 1
       \<and> Fetch \<lparr>authorization = ''Bearer '' @ k, payload = p\<rparr> \<in> set (events (POST uuid cfg w s (Inr b)))
       \<and> Log (randomUUID w) Info ''Duplicate submission detected''
            \<notin> set (events (POST uuid cfg w s (Inr b)))"
proof -
  obtain r sent where rs: "sendEmailReport cfg (fetch w) (now_when w) d (randomUUID w) = (r, sent)"
    by (cases "sendEmailReport cfg (fetch w) (now_when w) d (randomUUID w)")
  from send_reaches_transport [where f = "fetch w", OF assms(3,4,5)] rs
  obtain rest where sent: "sent = Fetch \<lparr>authorization = ''Bearer '' @ k, payload = p\<rparr> # rest"
    and rest: "transport_calls rest = 0" by auto
  have nodup: "Log (randomUUID w) Info ''Duplicate submission detected'' \<notin> set sent"
    using rs
    by (auto simp: sendEmailReport_def sendEmailReport_try_def Let_def
        split: option.splits sum.splits fetch_result.splits if_splits)
  show ?thesis
  proof (cases "success r")
    case True
    from POST_miss_sent [where s = s and w = w and cfg = cfg, OF assms(1,2) rs True] sent rest nodup show ?thesis by simp
  next
    case False
    from POST_miss_failed [where s = s and w = w and cfg = cfg, OF assms(1,2) rs False] sent rest nodup show ?thesis by simp
  qed
qed

subsection \<open>Two requests in a row, and the shapes of a response\<close>

lemma sweep_keeps:
  assumes "s k = Some e" and "\<not> entry_timestamp e < cutoff"
  shows "sweep cutoff s k = Some e"
  using assms by (simp add: sweep_def)


lemma formats_iff:
  "(\<exists>p. emailPayload_of cfg now d cid = Inr p)
     \<longleftrightarrow> new_Date (num_or (timestamp d) (of_int now)) \<noteq> None"
  by (auto simp: emailPayload_of_def Date_toISOString_def split: option.splits)

lemma POST_cases:
  obtains
    (unparsed) m where "req = Inl m"
      and "POST uuid cfg w s req =
             \<lparr>response = \<lparr>status = 500, body = ErrorBody ''server_error'' ''Internal server error''\<rparr>,
              store_after = s,
              events = [Log (randomUUID w) Info ''Report submission started'',
                        Log (randomUUID w) Err ''API error'']\<rparr>"
  | (invalid) b where "req = Inr b"
      and "POST uuid cfg w s req =
             \<lparr>response = \<lparr>status = 400, body = ErrorBody ''bad_request'' ''Invalid request data''\<rparr>,
              store_after = s,
              events = [Log (randomUUID w) Info ''Report submission started'',
                        Log (randomUUID w) Err ''API error'']\<rparr>"
  | (hit) b d e where "req = Inr b" and "submitSchema_parse uuid b = Inr d"
      and "s (getIdempotencyKey (now_key w) d) = Some e"
      and "now_lookup w - entry_timestamp e < 300000"
      and "POST uuid cfg w s req =
             \<lparr>response = \<lparr>status = 200, body = entry_response e\<rparr>,
              store_after = s,
              events = [Log (randomUUID w) Info ''Report submission started'',
                        Log (randomUUID w) Info ''Duplicate submission detected'']\<rparr>"
  | (failed) b d r sent where "req = Inr b" and "submitSchema_parse uuid b = Inr d"
      and "live (s (getIdempotencyKey (now_key w) d)) (now_lookup w) = None"
      and "sendEmailReport cfg (fetch w) (now_when w) d (randomUUID w) = (r, sent)"
      and "\<not> success r"
      and "POST uuid cfg w s req =
             \<lparr>response = \<lparr>status = 500, body = ErrorBody ''server_error'' ''Internal server error''\<rparr>,
              store_after = s,
              events = [Log (randomUUID w) Info ''Report submission started''] @ sent
                        @ [Log (randomUUID w) Err ''API error'']\<rparr>"
  | (sent) b d r sent where "req = Inr b" and "submitSchema_parse uuid b = Inr d"
      and "live (s (getIdempotencyKey (now_key w) d)) (now_lookup w) = None"
      and "sendEmailReport cfg (fetch w) (now_when w) d (randomUUID w) = (r, sent)"
      and "success r"
      and "POST uuid cfg w s req =
             \<lparr>response = \<lparr>status = 200, body = SuccessBody (reference r)\<rparr>,
              store_after =
                (let s1 = s(getIdempotencyKey (now_key w) d \<mapsto>
                            \<lparr>entry_timestamp = now_write w,
                             entry_response = SuccessBody (reference r)\<rparr>)
                 in if random w < 1 / 100 then sweep (now_cutoff w - 300000) s1 else s1),
              events = [Log (randomUUID w) Info ''Report submission started''] @ sent
                        @ [Log (randomUUID w) Info ''Report submission completed'']\<rparr>"
proof (cases req)
  case (Inl e)
  then show ?thesis using unparsed by (simp add: POST_def POST_try_def Let_def)
next
  case (Inr b)
  show ?thesis
  proof (cases "submitSchema_parse uuid b")
    case (Inl e)
    from POST_invalid [where s = s and w = w and cfg = cfg, OF this] Inr invalid
    show ?thesis by simp
  next
    case d: (Inr d)
    show ?thesis
    proof (cases "live (s (getIdempotencyKey (now_key w) d)) (now_lookup w)")
      case (Some e)
      then have "s (getIdempotencyKey (now_key w) d) = Some e"
        and "now_lookup w - entry_timestamp e < 300000"
        by (auto simp: live_def split: option.splits if_splits)
      from this POST_hit [where s = s and w = w and cfg = cfg, OF d this] Inr d hit
      show ?thesis by simp
    next
      case None
      obtain r evs where rs: "sendEmailReport cfg (fetch w) (now_when w) d (randomUUID w) = (r, evs)"
        by (cases "sendEmailReport cfg (fetch w) (now_when w) d (randomUUID w)")
      show ?thesis
      proof (cases "success r")
        case True
        from POST_miss_sent [where s = s and w = w and cfg = cfg, OF d None rs True] Inr d None rs True sent
        show ?thesis by simp
      next
        case False
        from POST_miss_failed [where s = s and w = w and cfg = cfg, OF d None rs False] Inr d None rs False failed
        show ?thesis by simp
      qed
    qed
  qed
qed

lemma POST_store_changed:
  assumes "store_after (POST uuid cfg w s req) \<noteq> s"
  shows "status (response (POST uuid cfg w s req)) = 200
       \<and> transport_calls (events (POST uuid cfg w s req)) = 1"
proof (cases rule: POST_cases [of req uuid cfg w s])
  case (sent b d r evs)
  from send_success_calls [of cfg "fetch w" "now_when w" d "randomUUID w"] sent(4,5)
  have "transport_calls evs = 1" by simp
  with sent(6) show ?thesis by simp
qed (use assms in simp_all)

lemma POST_keeps_successes:
  assumes "\<And>k e. s k = Some e \<Longrightarrow> \<exists>ref. entry_response e = SuccessBody ref"
    and "store_after (POST uuid cfg w s req) k = Some e"
  shows "\<exists>ref. entry_response e = SuccessBody ref"
proof (cases rule: POST_cases [of req uuid cfg w s])
  case (sent b d r evs)
  with assms show ?thesis
    by (auto simp: Let_def sweep_def split: if_splits option.splits)
qed (use assms in auto)

lemma serve_keeps_successes:
  assumes "\<And>k e. s k = Some e \<Longrightarrow> \<exists>ref. entry_response e = SuccessBody ref"
    and "serve uuid s rs k = Some e"
  shows "\<exists>ref. entry_response e = SuccessBody ref"
  using assms
proof (induction rs arbitrary: s k e)
  case Nil
  then show ?case by (simp add: serve_def)
next
  case (Cons rq rs)
  obtain cfg w req where rq: "rq = (cfg, w, req)" by (cases rq)
  have step: "serve uuid s (rq # rs) = serve uuid (store_after (POST uuid cfg w s req)) rs"
    by (simp add: serve_def rq)
  show ?case
  proof (rule Cons.IH [of "store_after (POST uuid cfg w s req)" k e])
    fix k' e' assume "store_after (POST uuid cfg w s req) k' = Some e'"
    with POST_keeps_successes [of s uuid cfg w req k' e'] Cons.prems(1)
    show "\<exists>ref. entry_response e' = SuccessBody ref" by blast
  next
    from Cons.prems(2) step show "serve uuid (store_after (POST uuid cfg w s req)) rs k = Some e"
      by simp
  qed
qed

lemma POST_response_shapes:
  assumes "\<And>k e. s k = Some e \<Longrightarrow> \<exists>ref. entry_response e = SuccessBody ref"
  shows "(status (response (POST uuid cfg w s req)) = 200
            \<and> (\<exists>ref. body (response (POST uuid cfg w s req)) = SuccessBody ref))
       \<or> response (POST uuid cfg w s req) =
            \<lparr>status = 400, body = ErrorBody ''bad_request'' ''Invalid request data''\<rparr>
       \<or> response (POST uuid cfg w s req) =
            \<lparr>status = 500, body = ErrorBody ''server_error'' ''Internal server error''\<rparr>"
proof (cases rule: POST_cases [of req uuid cfg w s])
  case (hit b d e)
  with assms [of _ e] show ?thesis by auto
qed simp_all

subsection \<open>Splitting and trimming\<close>

lemma split_no_separator: "c \<notin> set xs \<Longrightarrow> split c xs = [xs]"
  by (induction xs) auto



lemma no_second_piece: "c \<notin> set xs \<Longrightarrow> at_index (split c xs) 1 = None"
  by (simp add: split_no_separator at_index_def)

lemma trim_between:
  assumes "\<not> is_space a" and "\<not> is_space z"
    and "\<forall>c \<in> set pre. is_space c" and "\<forall>c \<in> set post. is_space c"
  shows "trim (pre @ a # mid @ z # post) = a # mid @ [z]"
proof -
  have "dropWhile is_space (pre @ a # mid @ z # post) = a # mid @ z # post"
    using assms(1,3) by (simp add: dropWhile_append2)
  moreover have "dropWhile is_space (rev post @ z # rev mid @ [a])
      = dropWhile is_space (z # rev mid @ [a])"
    by (rule dropWhile_append2) (use assms(4) in simp)
  moreover have "dropWhile is_space (z # rev mid @ [a]) = z # rev mid @ [a]"
    using assms(2) by simp
  ultimately show ?thesis by (simp add: trim_def)
qed

lemma trim_text_template:
  "trim (text_template stamp d cid) =
     ''Source: QR-Driven Garbage Reporting Webapp\<newline>When: '' @ stamp
     @ ''\<newline>Where: '' @ Number_toFixed 6 (lat d) @ '','' @ Number_toFixed 6 (lon d)
     @ '' '' @ accuracy_note d
     @ ''\<newline>Report ID: '' @ client_nonce d
     @ ''\<newline>Correlation ID: '' @ cid
     @ ''\<newline>\<newline>---\<newline>User Message:\<newline>'' @ str_or (message d) ''No message provided.''
     @ ''\<newline>---''"
proof -
  let ?mid = "''ource: QR-Driven Garbage Reporting Webapp\<newline>When: '' @ stamp
     @ ''\<newline>Where: '' @ Number_toFixed 6 (lat d) @ '','' @ Number_toFixed 6 (lon d)
     @ '' '' @ accuracy_note d
     @ ''\<newline>Report ID: '' @ client_nonce d
     @ ''\<newline>Correlation ID: '' @ cid
     @ ''\<newline>\<newline>---\<newline>User Message:\<newline>'' @ str_or (message d) ''No message provided.''
     @ ''\<newline>--''"
  have shape: "text_template stamp d cid = ''\<newline>'' @ CHR ''S'' # ?mid @ CHR ''-'' # ''\<newline>      ''"
    by (simp add: text_template_def)
  have "trim (''\<newline>'' @ CHR ''S'' # ?mid @ CHR ''-'' # ''\<newline>      '') = CHR ''S'' # ?mid @ [CHR ''-'']"
    by (rule trim_between) (simp_all add: is_space_def)
  with shape show ?thesis by simp
qed

subsection \<open>The examples, evaluated\<close>

lemma example_parses: "submitSchema_parse uuid_shape (JObj example_fields) = Inr example_data"
  by code_simp

lemma example_key_eq: "getIdempotencyKey (now_key example_world) example_data = example_key"
  by code_simp

lemma example_formats:
  "emailPayload_of example_env (now_when example_world) example_data (randomUUID example_world)
     = Inr example_payload"
  by code_simp

lemma example_miss: "live None t = None"
  by (simp add: live_def)



lemma toISOString_examples:
  "toISOString 0 = ''1970-01-01T00:00:00.000Z''"
  "toISOString (- 1) = ''1969-12-31T23:59:59.999Z''"
  "toISOString 951782400000 = ''2000-02-29T00:00:00.000Z''"
  "toISOString 1736310995643 = ''2025-01-08T04:36:35.643Z''"
  "toISOString 8640000000000000 = ''+275760-09-13T00:00:00.000Z''"
  "toISOString (- 8640000000000000) = ''-271821-04-20T00:00:00.000Z''"
  by code_simp+

lemma Number_toFixed_examples:
  "Number_toFixed 6 (377749 / 10000) = ''37.774900''"
  "Number_toFixed 6 (- (1224194 / 10000)) = ''-122.419400''"
  "Number_toFixed 6 (5 / 10000000) = ''0.000001''"
  "Number_toFixed 6 (- (1 / 10000000)) = ''-0.000000''"
  by code_simp+


lemma example_unavailable:
  "response (POST uuid_shape example_env (example_world\<lparr>fetch := unavailable\<rparr>) Map.empty
      (Inr (JObj example_fields)))
     = \<lparr>status = 500, body = ErrorBody ''server_error'' ''Internal server error''\<rparr>"
  "store_after (POST uuid_shape example_env (example_world\<lparr>fetch := unavailable\<rparr>) Map.empty
      (Inr (JObj example_fields))) example_key = None"
  by code_simp+

section \<open>The claims\<close>

text \<open>
  C1. A payload whose \<open>lat\<close> is a number outside [-90, 90], or whose \<open>lon\<close> is a number
  outside [-180, 180], or whose \<open>client_nonce\<close> is not a string that passes the UUID test,
  is answered with HTTP 400 and the body
  \<^verbatim>\<open>{status: "error", code: "bad_request", message: "Invalid request data"}\<close>; the
  transport is not called and the store is left as it was.
\<close>

theorem invalid_payload_rejected:
  assumes "(get_prop kv ''lat'' = Some (JNum x) \<and> (x < - 90 \<or> 90 < x))
         \<or> (get_prop kv ''lon'' = Some (JNum y) \<and> (y < - 180 \<or> 180 < y))
         \<or> (\<forall>n. get_prop kv ''client_nonce'' = Some (JStr n) \<longrightarrow> \<not> uuid n)"
  shows "response (POST uuid cfg w s (Inr (JObj kv))) =
           \<lparr>status = 400, body = ErrorBody ''bad_request'' ''Invalid request data''\<rparr>
       \<and> transport_calls (events (POST uuid cfg w s (Inr (JObj kv)))) = 0
       \<and> store_after (POST uuid cfg w s (Inr (JObj kv))) = s"
proof -
  from assms have "z_number_min_max (- 90) 90 (get_prop kv ''lat'') = None
      \<or> z_number_min_max (- 180) 180 (get_prop kv ''lon'') = None
      \<or> z_string_uuid uuid (get_prop kv ''client_nonce'') = None"
    by (auto simp: z_number_min_max_def z_string_uuid_def split: option.splits json.splits)
  then have "submitSchema_parse uuid (JObj kv) = Inl ZodError"
    by (auto simp: parse_Inl_iff)
  from POST_invalid [where s = s and w = w and cfg = cfg, OF this] show ?thesis by simp
qed

text \<open>The specification's scenario \<^verbatim>\<open>lat: 200\<close>.\<close>

theorem invalid_payload_rejected_witness:
  "get_prop lat_200_fields ''lat'' = Some (JNum 200) \<and> (90 :: rat) < 200
   \<and> response (POST uuid_shape example_env example_world Map.empty (Inr (JObj lat_200_fields))) =
         \<lparr>status = 400, body = ErrorBody ''bad_request'' ''Invalid request data''\<rparr>
   \<and> transport_calls
         (events (POST uuid_shape example_env example_world Map.empty (Inr (JObj lat_200_fields)))) = 0"
proof -
  have h: "get_prop lat_200_fields ''lat'' = Some (JNum 200) \<and> (90 :: rat) < 200"
    by (simp add: get_prop_def lat_200_fields_def)
  then have "(get_prop lat_200_fields ''lat'' = Some (JNum 200)
                \<and> ((200 :: rat) < - 90 \<or> 90 < (200 :: rat)))
           \<or> (get_prop lat_200_fields ''lon'' = Some (JNum 0)
                \<and> ((0 :: rat) < - 180 \<or> 180 < (0 :: rat)))
           \<or> (\<forall>n. get_prop lat_200_fields ''client_nonce'' = Some (JStr n) \<longrightarrow> \<not> uuid_shape n)"
    by simp
  from invalid_payload_rejected [OF this] h show ?thesis by simp
qed

text \<open>
  C2, as the handler has it. The schema asks of \<open>accuracy\<close> only that it be a number
  when present. A payload whose accuracy is present and is not a number is answered with
  HTTP 400 \<open>bad_request\<close>, with no call of the transport and no change of the store. A
  numeric accuracy passes whatever its sign: a payload that supplies one is rejected only
  when another field fails its own constraint, and the validated payload carries the
  value as supplied.
\<close>

theorem accuracy_only_typed:
  assumes "get_prop kv ''accuracy'' = Some v"
  shows "((\<forall>a. v \<noteq> JNum a) \<longrightarrow>
            response (POST uuid cfg w s (Inr (JObj kv))) =
              \<lparr>status = 400, body = ErrorBody ''bad_request'' ''Invalid request data''\<rparr>
          \<and> transport_calls (events (POST uuid cfg w s (Inr (JObj kv)))) = 0
          \<and> store_after (POST uuid cfg w s (Inr (JObj kv))) = s)
       \<and> (v = JNum a \<longrightarrow>
            (submitSchema_parse uuid (JObj kv) = Inl ZodError \<longleftrightarrow>
               z_number_min_max (- 90) 90 (get_prop kv ''lat'') = None
             \<or> z_number_min_max (- 180) 180 (get_prop kv ''lon'') = None
             \<or> z_number_optional (get_prop kv ''timestamp'') = None
             \<or> z_string_uuid uuid (get_prop kv ''client_nonce'') = None
             \<or> z_string_optional (get_prop kv ''message'') = None
             \<or> z_string_optional (get_prop kv ''photoBase64'') = None))
       \<and> (v = JNum a \<and> submitSchema_parse uuid (JObj kv) = Inr d \<longrightarrow> accuracy d = Some a)"
proof (intro conjI impI)
  assume "\<forall>a. v \<noteq> JNum a"
  with assms have "z_number_optional (get_prop kv ''accuracy'') = None"
    by (cases v) (simp_all add: z_number_optional_def)
  then have bad: "submitSchema_parse uuid (JObj kv) = Inl ZodError"
    by (simp add: parse_Inl_iff)
  note rejected = POST_invalid [where s = s and w = w and cfg = cfg, OF bad]
  show "response (POST uuid cfg w s (Inr (JObj kv))) =
          \<lparr>status = 400, body = ErrorBody ''bad_request'' ''Invalid request data''\<rparr>"
    by (simp add: rejected)
  show "transport_calls (events (POST uuid cfg w s (Inr (JObj kv)))) = 0"
    by (simp add: rejected)
  show "store_after (POST uuid cfg w s (Inr (JObj kv))) = s"
    by (simp add: rejected)
next
  assume "v = JNum a"
  with assms have "z_number_optional (get_prop kv ''accuracy'') = Some (Some a)"
    by (simp add: z_number_optional_def)
  then show "submitSchema_parse uuid (JObj kv) = Inl ZodError \<longleftrightarrow>
               z_number_min_max (- 90) 90 (get_prop kv ''lat'') = None
             \<or> z_number_min_max (- 180) 180 (get_prop kv ''lon'') = None
             \<or> z_number_optional (get_prop kv ''timestamp'') = None
             \<or> z_string_uuid uuid (get_prop kv ''client_nonce'') = None
             \<or> z_string_optional (get_prop kv ''message'') = None
             \<or> z_string_optional (get_prop kv ''photoBase64'') = None"
    by (simp add: parse_Inl_iff)
next
  assume "v = JNum a \<and> submitSchema_parse uuid (JObj kv) = Inr d"
  with assms show "accuracy d = Some a"
    by (simp add: parse_Inr_iff z_number_optional_def)
qed

text \<open>An accuracy given as the text \<^verbatim>\<open>"10"\<close> is rejected; an accuracy of -5 is kept.\<close>

theorem accuracy_only_typed_witness:
  "get_prop textual_accuracy_fields ''accuracy'' = Some (JStr ''10'')
   \<and> response (POST uuid_shape example_env example_world Map.empty
         (Inr (JObj textual_accuracy_fields))) =
         \<lparr>status = 400, body = ErrorBody ''bad_request'' ''Invalid request data''\<rparr>
   \<and> get_prop negative_accuracy_fields ''accuracy'' = Some (JNum (- 5))
   \<and> submitSchema_parse uuid_shape (JObj negative_accuracy_fields) = Inr negative_accuracy_data
   \<and> accuracy negative_accuracy_data = Some (- 5)"
proof -
  have t: "get_prop textual_accuracy_fields ''accuracy'' = Some (JStr ''10'')"
    by (simp add: get_prop_def textual_accuracy_fields_def)
  have n: "get_prop negative_accuracy_fields ''accuracy'' = Some (JNum (- 5))"
    by (simp add: get_prop_def negative_accuracy_fields_def)
  have p: "submitSchema_parse uuid_shape (JObj negative_accuracy_fields) = Inr negative_accuracy_data"
    by code_simp
  from accuracy_only_typed [OF t, where uuid = uuid_shape and cfg = example_env
      and w = example_world and s = Map.empty]
    accuracy_only_typed [OF n, where uuid = uuid_shape and a = "- 5" and d = negative_accuracy_data]
    t n p
  show ?thesis by simp
qed

text \<open>
  C2, as the specification has it, fails: a payload with an accuracy of -5 passes
  validation, reaches the dispatcher and is answered 200.
\<close>

theorem negative_accuracy_accepted:
  "get_prop negative_accuracy_fields ''accuracy'' = Some (JNum (- 5))
   \<and> response (POST uuid_shape example_env example_world Map.empty
         (Inr (JObj negative_accuracy_fields))) =
         \<lparr>status = 200, body = SuccessBody (Some (JStr ''email_123''))\<rparr>
   \<and> transport_calls (events (POST uuid_shape example_env example_world Map.empty
         (Inr (JObj negative_accuracy_fields)))) = 1"
  by code_simp



text \<open>
  C4. An entry is written to the store only by a request whose dispatch succeeded: a
  request that changes the store is answered 200 and has called the transport. When the
  call of the transport is rejected (no connection, or the timeout fired) or is answered
  with a status outside 200..299, the response is HTTP 500 \<open>server_error\<close> and the store
  is left as it was, so the same request sent again at once reaches the transport again.
\<close>

theorem failed_dispatch_leaves_store:
  assumes "submitSchema_parse uuid b = Inr d"
    and "live (s (getIdempotencyKey (now_key w) d)) (now_lookup w) = None"
    and "RESEND_API_KEY cfg = Some k" and "k \<noteq> []"
    and "emailPayload_of cfg (now_when w) d (randomUUID w) = Inr p"
    and "(\<exists>m. fetch w \<lparr>authorization = ''Bearer '' @ k, payload = p\<rparr> = Rejected m)
       \<or> (\<exists>st answer js.
             fetch w \<lparr>authorization = ''Bearer '' @ k, payload = p\<rparr> = Responded st answer js
             \<and> \<not> response_ok st)"
  shows "response (POST uuid cfg w s (Inr b)) =
           \<lparr>status = 500, body = ErrorBody ''server_error'' ''Internal server error''\<rparr>
       \<and> store_after (POST uuid cfg w s (Inr b)) = s
       \<and> transport_calls (events (POST uuid cfg w s (Inr b))) = 1
       \<and> transport_calls
           (events (POST uuid cfg (w\<lparr>fetch := f\<rparr>) (store_after (POST uuid cfg w s (Inr b)))
              (Inr b))) = 1
       \<and> (store_after (POST uuid cfg' w' s' req) \<noteq> s' \<longrightarrow>
            status (response (POST uuid cfg' w' s' req)) = 200
          \<and> transport_calls (events (POST uuid cfg' w' s' req)) = 1)"
proof -
  note failure = POST_transport_failure [where s = s and w = w and cfg = cfg, OF assms]
  have again: "transport_calls (events (POST uuid cfg (w\<lparr>fetch := f\<rparr>) s (Inr b))) = 1"
    using POST_reaches_transport [where s = s and w = "w\<lparr>fetch := f\<rparr>" and cfg = cfg
        and k = k and p = p, OF assms(1)] assms(2-5)
    by simp
  have written: "store_after (POST uuid cfg' w' s' req) \<noteq> s' \<longrightarrow>
      status (response (POST uuid cfg' w' s' req)) = 200
      \<and> transport_calls (events (POST uuid cfg' w' s' req)) = 1"
    using POST_store_changed [of uuid cfg' w' s' req] by blast
  from again written show ?thesis by (simp add: failure)
qed

text \<open>
  The example with a transport that times out, then sent again to a transport that
  answers; and the store that the example itself leaves, which is not the empty one.
\<close>

theorem failed_dispatch_leaves_store_witness:
  "submitSchema_parse uuid_shape (JObj example_fields) = Inr example_data
   \<and> RESEND_API_KEY example_env = Some ''re_test''
   \<and> emailPayload_of example_env (now_when (example_world\<lparr>fetch := timing_out\<rparr>)) example_data
         (randomUUID (example_world\<lparr>fetch := timing_out\<rparr>)) = Inr example_payload
   \<and> fetch (example_world\<lparr>fetch := timing_out\<rparr>) example_call
         = Rejected ''The operation was aborted due to timeout''
   \<and> response (POST uuid_shape example_env (example_world\<lparr>fetch := timing_out\<rparr>) Map.empty
         (Inr (JObj example_fields))) =
         \<lparr>status = 500, body = ErrorBody ''server_error'' ''Internal server error''\<rparr>
   \<and> transport_calls
         (events (POST uuid_shape example_env (example_world\<lparr>fetch := timing_out, fetch := healthy\<rparr>)
            (store_after (POST uuid_shape example_env (example_world\<lparr>fetch := timing_out\<rparr>)
               Map.empty (Inr (JObj example_fields))))
            (Inr (JObj example_fields)))) = 1
   \<and> store_after (POST uuid_shape example_env example_world Map.empty (Inr (JObj example_fields)))
         \<noteq> Map.empty
   \<and> status (response (POST uuid_shape example_env example_world Map.empty
         (Inr (JObj example_fields)))) = 200"
proof -
  let ?w = "example_world\<lparr>fetch := timing_out\<rparr>"
  have key: "RESEND_API_KEY example_env = Some ''re_test''" "''re_test'' \<noteq> []"
    by (simp_all add: example_env_def)
  have fmt: "emailPayload_of example_env (now_when ?w) example_data (randomUUID ?w) = Inr example_payload"
    using example_formats by simp
  have out: "(\<exists>m. fetch ?w \<lparr>authorization = ''Bearer '' @ ''re_test'', payload = example_payload\<rparr>
                = Rejected m)
      \<or> (\<exists>st answer js.
            fetch ?w \<lparr>authorization = ''Bearer '' @ ''re_test'', payload = example_payload\<rparr>
              = Responded st answer js \<and> \<not> response_ok st)"
    by (simp add: timing_out_def)
  have out': "fetch ?w example_call = Rejected ''The operation was aborted due to timeout''"
    by (simp add: timing_out_def)
  have "store_after (POST uuid_shape example_env example_world Map.empty (Inr (JObj example_fields)))
          example_key \<noteq> None"
    by code_simp
  then have changed:
    "store_after (POST uuid_shape example_env example_world Map.empty (Inr (JObj example_fields)))
       \<noteq> Map.empty"
    by auto
  note all = failed_dispatch_leaves_store [where s = Map.empty and w = ?w and cfg = example_env
      and f = healthy and cfg' = example_env and w' = example_world and s' = Map.empty
      and req = "Inr (JObj example_fields)", OF example_parses example_miss key fmt out]
  from all have answered: "response (POST uuid_shape example_env ?w Map.empty
         (Inr (JObj example_fields))) =
         \<lparr>status = 500, body = ErrorBody ''server_error'' ''Internal server error''\<rparr>"
    by (rule conjunct1)
  from all have again: "transport_calls
         (events (POST uuid_shape example_env (?w\<lparr>fetch := healthy\<rparr>)
            (store_after (POST uuid_shape example_env ?w Map.empty (Inr (JObj example_fields))))
            (Inr (JObj example_fields)))) = 1"
    by blast
  from all changed have served: "status (response (POST uuid_shape example_env example_world Map.empty
         (Inr (JObj example_fields)))) = 200"
    by blast
  from example_parses key(1) fmt out' answered again changed served
  show ?thesis by blast
qed

text \<open>
  C5. A valid payload finds in the store, under its fingerprint, an entry written
  300000 ms or more before the lookup. The entry is not served: no duplicate is logged,
  and the response and the trace are those of the same request on a store without the
  entry. With the API key configured and a valid date for the report, the transport is
  called, once.
\<close>

theorem expired_entry_is_a_miss:
  assumes "submitSchema_parse uuid b = Inr d"
    and "s (getIdempotencyKey (now_key w) d) = Some e"
    and "300000 \<le> now_lookup w - entry_timestamp e"
    and "RESEND_API_KEY cfg = Some k" and "k \<noteq> []"
    and "new_Date (num_or (timestamp d) (of_int (now_when w))) \<noteq> None"
  shows "transport_calls (events (POST uuid cfg w s (Inr b))) = 1
       \<and> Log (randomUUID w) Info ''Duplicate submission detected''
            \<notin> set (events (POST uuid cfg w s (Inr b)))
       \<and> response (POST uuid cfg w s (Inr b))
            = response (POST uuid cfg w (s(getIdempotencyKey (now_key w) d := None)) (Inr b))
       \<and> events (POST uuid cfg w s (Inr b))
            = events (POST uuid cfg w (s(getIdempotencyKey (now_key w) d := None)) (Inr b))"
proof -
  let ?k = "getIdempotencyKey (now_key w) d"
  let ?s' = "s(?k := None)"
  from assms(6) obtain p where fmt: "emailPayload_of cfg (now_when w) d (randomUUID w) = Inr p"
    using formats_iff [of cfg "now_when w" d "randomUUID w"] by blast
  have miss: "live (s ?k) (now_lookup w) = None"
    using assms(2,3) by (simp add: live_def)
  have miss': "live (?s' ?k) (now_lookup w) = None"
    by (simp add: live_def)
  note reached = POST_reaches_transport [where s = s and w = w and cfg = cfg,
      OF assms(1) miss assms(4,5) fmt]
  obtain r evs where rs: "sendEmailReport cfg (fetch w) (now_when w) d (randomUUID w) = (r, evs)"
    by (cases "sendEmailReport cfg (fetch w) (now_when w) d (randomUUID w)")
  have "response (POST uuid cfg w s (Inr b)) = response (POST uuid cfg w ?s' (Inr b))
      \<and> events (POST uuid cfg w s (Inr b)) = events (POST uuid cfg w ?s' (Inr b))"
  proof (cases "success r")
    case True
    from POST_miss_sent [where s = s and w = w and cfg = cfg, OF assms(1) miss rs True]
      POST_miss_sent [where s = ?s' and w = w and cfg = cfg, OF assms(1) miss' rs True]
    show ?thesis by simp
  next
    case False
    from POST_miss_failed [where s = s and w = w and cfg = cfg, OF assms(1) miss rs False]
      POST_miss_failed [where s = ?s' and w = w and cfg = cfg, OF assms(1) miss' rs False]
    show ?thesis by simp
  qed
  with reached show ?thesis by simp
qed

text \<open>
  The store left by the example, met by a request that computed its key in the same
  minute and reaches the lookup five minutes after the entry was written.
\<close>

theorem expired_entry_is_a_miss_witness:
  "submitSchema_parse uuid_shape (JObj example_fields) = Inr example_data
   \<and> example_store (getIdempotencyKey (now_key stalled) example_data)
       = Some \<lparr>entry_timestamp = 1736310995900,
                entry_response = SuccessBody (Some (JStr ''email_123''))\<rparr>
   \<and> 300000 \<le> now_lookup stalled - 1736310995900
   \<and> RESEND_API_KEY example_env = Some ''re_test''
   \<and> new_Date (num_or (timestamp example_data) (of_int (now_when stalled))) \<noteq> None
   \<and> transport_calls
         (events (POST uuid_shape example_env stalled example_store (Inr (JObj example_fields)))) = 1"
proof -
  have found: "example_store (getIdempotencyKey (now_key stalled) example_data)
       = Some \<lparr>entry_timestamp = 1736310995900,
                entry_response = SuccessBody (Some (JStr ''email_123''))\<rparr>"
    by code_simp
  have late: "300000 \<le> now_lookup stalled
      - entry_timestamp \<lparr>entry_timestamp = 1736310995900,
                          entry_response = SuccessBody (Some (JStr ''email_123''))\<rparr>"
    by (simp add: stalled_def)
  have key: "RESEND_API_KEY example_env = Some ''re_test''" "''re_test'' \<noteq> []"
    by (simp_all add: example_env_def)
  have date: "new_Date (num_or (timestamp example_data) (of_int (now_when stalled))) \<noteq> None"
    by code_simp
  have "transport_calls
      (events (POST uuid_shape example_env stalled example_store (Inr (JObj example_fields)))) = 1"
    using expired_entry_is_a_miss [where s = example_store and w = stalled and cfg = example_env,
        OF example_parses found late key date]
    by (rule conjunct1)
  with example_parses found late key date show ?thesis by simp
qed

text \<open>
  C6. For a valid payload that is not a live duplicate, when the transport API key is
  unset (or empty), the dispatch fails before any call of the transport and the client
  receives HTTP 500 with code \<open>server_error\<close>, which is also the response when the
  transport is called and times out, cannot be reached or answers with a status outside
  200..299.
\<close>

theorem missing_api_key_fails_fast:
  assumes "submitSchema_parse uuid b = Inr d"
    and "live (s (getIdempotencyKey (now_key w) d)) (now_lookup w) = None"
    and "\<not> truthy_str (RESEND_API_KEY cfg)"
  shows "response (POST uuid cfg w s (Inr b)) =
           \<lparr>status = 500, body = ErrorBody ''server_error'' ''Internal server error''\<rparr>
       \<and> transport_calls (events (POST uuid cfg w s (Inr b))) = 0
       \<and> store_after (POST uuid cfg w s (Inr b)) = s
       \<and> (RESEND_API_KEY cfg' = Some k \<and> k \<noteq> []
            \<and> emailPayload_of cfg' (now_when w') d (randomUUID w') = Inr p
            \<and> live (s (getIdempotencyKey (now_key w') d)) (now_lookup w') = None
            \<and> ((\<exists>m. fetch w' \<lparr>authorization = ''Bearer '' @ k, payload = p\<rparr> = Rejected m)
               \<or> (\<exists>st answer js.
                     fetch w' \<lparr>authorization = ''Bearer '' @ k, payload = p\<rparr> = Responded st answer js
                     \<and> \<not> response_ok st))
          \<longrightarrow> response (POST uuid cfg' w' s (Inr b)) = response (POST uuid cfg w s (Inr b))
              \<and> transport_calls (events (POST uuid cfg' w' s (Inr b))) = 1)"
proof -
  have "sendEmailReport cfg (fetch w) (now_when w) d (randomUUID w) =
          (\<lparr>success = False, reference = None, error = Some ''RESEND_API_KEY not configured''\<rparr>,
           [Log (randomUUID w) Err ''Failed to send email''])"
    using assms(3) by (rule send_no_key)
  from POST_miss_failed [where s = s and w = w and cfg = cfg, OF assms(1,2) this]
  have here: "POST uuid cfg w s (Inr b) =
      \<lparr>response = \<lparr>status = 500, body = ErrorBody ''server_error'' ''Internal server error''\<rparr>,
       store_after = s,
       events = [Log (randomUUID w) Info ''Report submission started'',
                 Log (randomUUID w) Err ''Failed to send email'',
                 Log (randomUUID w) Err ''API error'']\<rparr>"
    by simp
  have there: "response (POST uuid cfg' w' s (Inr b)) = response (POST uuid cfg w s (Inr b))
        \<and> transport_calls (events (POST uuid cfg' w' s (Inr b))) = 1"
    if "RESEND_API_KEY cfg' = Some k" and "k \<noteq> []"
      and "emailPayload_of cfg' (now_when w') d (randomUUID w') = Inr p"
      and "live (s (getIdempotencyKey (now_key w') d)) (now_lookup w') = None"
      and "(\<exists>m. fetch w' \<lparr>authorization = ''Bearer '' @ k, payload = p\<rparr> = Rejected m)
         \<or> (\<exists>st answer js.
               fetch w' \<lparr>authorization = ''Bearer '' @ k, payload = p\<rparr> = Responded st answer js
               \<and> \<not> response_ok st)"
    using POST_transport_failure [where s = s and w = w' and cfg = cfg', OF assms(1) that(4,1,2,3,5)] here
    by simp
  from here there show ?thesis by simp
qed

text \<open>
  The example with the key unset, beside the example with a key and a transport that
  times out.
\<close>

theorem missing_api_key_fails_fast_witness:
  "submitSchema_parse uuid_shape (JObj example_fields) = Inr example_data
   \<and> \<not> truthy_str (RESEND_API_KEY (example_env\<lparr>RESEND_API_KEY := None\<rparr>))
   \<and> response (POST uuid_shape (example_env\<lparr>RESEND_API_KEY := None\<rparr>) example_world Map.empty
         (Inr (JObj example_fields))) =
         \<lparr>status = 500, body = ErrorBody ''server_error'' ''Internal server error''\<rparr>
   \<and> transport_calls (events (POST uuid_shape (example_env\<lparr>RESEND_API_KEY := None\<rparr>)
         example_world Map.empty (Inr (JObj example_fields)))) = 0
   \<and> fetch (example_world\<lparr>fetch := timing_out\<rparr>) example_call
         = Rejected ''The operation was aborted due to timeout''
   \<and> response (POST uuid_shape example_env (example_world\<lparr>fetch := timing_out\<rparr>) Map.empty
         (Inr (JObj example_fields))) =
         \<lparr>status = 500, body = ErrorBody ''server_error'' ''Internal server error''\<rparr>
   \<and> transport_calls (events (POST uuid_shape example_env (example_world\<lparr>fetch := timing_out\<rparr>)
         Map.empty (Inr (JObj example_fields)))) = 1"
proof -
  let ?cfg = "example_env\<lparr>RESEND_API_KEY := None\<rparr>"
  let ?w' = "example_world\<lparr>fetch := timing_out\<rparr>"
  have nokey: "\<not> truthy_str (RESEND_API_KEY ?cfg)" by simp
  have key: "RESEND_API_KEY example_env = Some ''re_test''" "''re_test'' \<noteq> []"
    by (simp_all add: example_env_def)
  have fmt: "emailPayload_of example_env (now_when ?w') example_data (randomUUID ?w') = Inr example_payload"
    using example_formats by simp
  have out: "fetch ?w' \<lparr>authorization = ''Bearer '' @ ''re_test'', payload = example_payload\<rparr>
      = Rejected ''The operation was aborted due to timeout''"
    by (simp add: timing_out_def)
  from missing_api_key_fails_fast [where s = Map.empty and w = example_world and cfg = ?cfg
      and cfg' = example_env and w' = ?w' and k = "''re_test''" and p = example_payload,
      OF example_parses example_miss nokey]
    example_parses nokey key fmt out example_miss
  show ?thesis by (auto simp: example_call_def)
qed

text \<open>
  C7, as the handler has it. Whenever a report is formed for a validated payload (which
  is when the date to print is a valid one), its text is the fixed template below. It
  holds the ISO rendering of the date (\<open>timestamp\<close>, or the clock when \<open>timestamp\<close> is
  absent or zero), the coordinates with six decimals, the accuracy annotation exactly when
  \<open>accuracy\<close> is supplied and is not zero, the \<open>client_nonce\<close> as Report ID, the
  correlation identifier, and the user message when it is supplied and not empty, the
  placeholder \<^verbatim>\<open>No message provided.\<close> otherwise.
\<close>

theorem report_text_template:
  assumes "emailPayload_of cfg now d cid = Inr p"
  shows "(\<exists>t. new_Date (num_or (timestamp d) (of_int now)) = Some t
            \<and> text_body p =
                ''Source: QR-Driven Garbage Reporting Webapp\<newline>When: '' @ toISOString t
                @ ''\<newline>Where: '' @ Number_toFixed 6 (lat d) @ '','' @ Number_toFixed 6 (lon d)
                @ '' '' @ accuracy_note d
                @ ''\<newline>Report ID: '' @ client_nonce d
                @ ''\<newline>Correlation ID: '' @ cid
                @ ''\<newline>\<newline>---\<newline>User Message:\<newline>''
                @ str_or (message d) ''No message provided.''
                @ ''\<newline>---'')
       \<and> (accuracy_note d = [] \<longleftrightarrow> accuracy d = None \<or> accuracy d = Some 0)
       \<and> (accuracy d = Some a \<and> a \<noteq> 0 \<longrightarrow>
            accuracy_note d = ''('' @ plus_minus @ Number_toString (of_int (Math_round a)) @ ''m)'')
       \<and> (message d = Some m \<and> m \<noteq> [] \<longrightarrow> str_or (message d) ''No message provided.'' = m)
       \<and> (message d = None \<or> message d = Some [] \<longrightarrow>
            str_or (message d) ''No message provided.'' = ''No message provided.'')"
proof -
  from assms obtain t where t: "new_Date (num_or (timestamp d) (of_int now)) = Some t"
    and p: "text_body p = trim (text_template (toISOString t) d cid)"
    by (auto simp: emailPayload_of_def Date_toISOString_def split: option.splits)
  have "accuracy_note d = [] \<longleftrightarrow> accuracy d = None \<or> accuracy d = Some 0"
    by (simp add: accuracy_note_def split: option.splits)
  moreover have "accuracy d = Some a \<and> a \<noteq> 0 \<longrightarrow>
      accuracy_note d = ''('' @ plus_minus @ Number_toString (of_int (Math_round a)) @ ''m)''"
    by (simp add: accuracy_note_def)
  moreover have "message d = Some m \<and> m \<noteq> [] \<longrightarrow> str_or (message d) ''No message provided.'' = m"
    by (simp add: str_or_def)
  moreover have "message d = None \<or> message d = Some [] \<longrightarrow>
      str_or (message d) ''No message provided.'' = ''No message provided.''"
    by (auto simp: str_or_def)
  moreover have "\<exists>t. new_Date (num_or (timestamp d) (of_int now)) = Some t
            \<and> text_body p =
                ''Source: QR-Driven Garbage Reporting Webapp\<newline>When: '' @ toISOString t
                @ ''\<newline>Where: '' @ Number_toFixed 6 (lat d) @ '','' @ Number_toFixed 6 (lon d)
                @ '' '' @ accuracy_note d
                @ ''\<newline>Report ID: '' @ client_nonce d
                @ ''\<newline>Correlation ID: '' @ cid
                @ ''\<newline>\<newline>---\<newline>User Message:\<newline>''
                @ str_or (message d) ''No message provided.''
                @ ''\<newline>---''"
    using t p trim_text_template [of "toISOString t" d cid] by (intro exI [of _ t]) simp
  ultimately show ?thesis by blast
qed

text \<open>The report of the example: an accuracy of 10 and a message.\<close>

theorem report_text_template_witness:
  "emailPayload_of example_env (now_when example_world) example_data (randomUUID example_world)
     = Inr example_payload
   \<and> accuracy example_data = Some 10
   \<and> accuracy_note example_data
       = ''('' @ plus_minus @ Number_toString (of_int (Math_round 10)) @ ''m)''
   \<and> message example_data = Some ''Boxes behind bus stop''
   \<and> str_or (message example_data) ''No message provided.'' = ''Boxes behind bus stop''"
proof -
  have acc: "accuracy example_data = Some 10" and msg: "message example_data = Some ''Boxes behind bus stop''"
    by (simp_all add: example_data_def)
  from report_text_template [OF example_formats, where a = 10 and m = "''Boxes behind bus stop''"]
    example_formats acc msg
  show ?thesis by simp
qed

text \<open>
  C7, as the specification has it, fails: an accuracy of 0 is supplied and the report
  carries no annotation; its text is the one of the same payload without accuracy.
\<close>

theorem zero_accuracy_not_annotated:
  "accuracy zero_accuracy_data = Some 0
   \<and> emailPayload_of example_env (now_when example_world) zero_accuracy_data
        (randomUUID example_world)
       = Inr (example_payload\<lparr>text_body := zero_accuracy_text\<rparr>)
   \<and> emailPayload_of example_env (now_when example_world) (zero_accuracy_data\<lparr>accuracy := None\<rparr>)
        (randomUUID example_world)
       = Inr (example_payload\<lparr>text_body := zero_accuracy_text\<rparr>)"
  by code_simp



text \<open>
  C9, as the handler has it. \<open>isInSanFrancisco\<close> accepts a pair of coordinates exactly
  when the latitude lies in [37.7049, 37.8324] and the longitude in [-122.5277, -122.3482].
  The handler does not apply it: the check is commented out in the source, there is no
  switch that enables it, and a valid payload from outside the rectangle is handled like
  any other: when it is not a live duplicate and its dispatch succeeds, it is answered
  200 with the reference of the transport. No response carries the code \<open>out_of_bounds\<close>.
\<close>

theorem bounding_box_not_enforced:
  "(isInSanFrancisco la lo \<longleftrightarrow>
      377049 / 10000 \<le> la \<and> la \<le> 378324 / 10000
      \<and> - (1225277 / 10000) \<le> lo \<and> lo \<le> - (1223482 / 10000))
   \<and> (submitSchema_parse uuid b = Inr d \<and> \<not> isInSanFrancisco (lat d) (lon d)
        \<and> live (s (getIdempotencyKey (now_key w) d)) (now_lookup w) = None
        \<and> success (fst (sendEmailReport cfg (fetch w) (now_when w) d (randomUUID w)))
      \<longrightarrow> response (POST uuid cfg w s (Inr b)) =
            \<lparr>status = 200,
             body = SuccessBody
                      (reference (fst (sendEmailReport cfg (fetch w) (now_when w) d (randomUUID w))))\<rparr>)
   \<and> body (response (POST uuid cfg' w' (serve uuid Map.empty history) req))
        \<noteq> ErrorBody ''out_of_bounds'' m"
proof (intro conjI impI)
  show "isInSanFrancisco la lo \<longleftrightarrow>
      377049 / 10000 \<le> la \<and> la \<le> 378324 / 10000
      \<and> - (1225277 / 10000) \<le> lo \<and> lo \<le> - (1223482 / 10000)"
    by (auto simp: isInSanFrancisco_def SF_BOUNDS_def)
next
  assume h: "submitSchema_parse uuid b = Inr d \<and> \<not> isInSanFrancisco (lat d) (lon d)
        \<and> live (s (getIdempotencyKey (now_key w) d)) (now_lookup w) = None
        \<and> success (fst (sendEmailReport cfg (fetch w) (now_when w) d (randomUUID w)))"
  obtain r evs where rs: "sendEmailReport cfg (fetch w) (now_when w) d (randomUUID w) = (r, evs)"
    by (cases "sendEmailReport cfg (fetch w) (now_when w) d (randomUUID w)")
  with h have ok: "success r" by simp
  from h have v: "submitSchema_parse uuid b = Inr d"
    and miss: "live (s (getIdempotencyKey (now_key w) d)) (now_lookup w) = None"
    by simp_all
  from POST_miss_sent [where s = s and w = w and cfg = cfg, OF v miss rs ok] rs
  show "response (POST uuid cfg w s (Inr b)) =
            \<lparr>status = 200,
             body = SuccessBody
                      (reference (fst (sendEmailReport cfg (fetch w) (now_when w) d (randomUUID w))))\<rparr>"
    by simp
next
  have inv: "\<exists>ref. entry_response e = SuccessBody ref"
    if "serve uuid Map.empty history k = Some e" for k e
    using serve_keeps_successes [of Map.empty uuid history k e] that by simp
  from POST_response_shapes [of "serve uuid Map.empty history" uuid cfg' w' req] inv
  show "body (response (POST uuid cfg' w' (serve uuid Map.empty history) req))
        \<noteq> ErrorBody ''out_of_bounds'' m"
    by auto
qed

text \<open>A report from latitude 0, longitude 0.\<close>

theorem bounding_box_not_enforced_witness:
  "submitSchema_parse uuid_shape (JObj null_island_fields) = Inr null_island_data
   \<and> \<not> isInSanFrancisco (lat null_island_data) (lon null_island_data)
   \<and> success (fst (sendEmailReport example_env (fetch example_world) (now_when example_world)
        null_island_data (randomUUID example_world)))
   \<and> response (POST uuid_shape example_env example_world Map.empty (Inr (JObj null_island_fields)))
       = \<lparr>status = 200, body = SuccessBody (Some (JStr ''email_123''))\<rparr>"
proof -
  have v: "submitSchema_parse uuid_shape (JObj null_island_fields) = Inr null_island_data"
    by code_simp
  have out: "\<not> isInSanFrancisco (lat null_island_data) (lon null_island_data)"
    by (simp add: isInSanFrancisco_def SF_BOUNDS_def null_island_data_def)
  have ok: "success (fst (sendEmailReport example_env (fetch example_world) (now_when example_world)
        null_island_data (randomUUID example_world)))"
    by code_simp
  have ref: "reference (fst (sendEmailReport example_env (fetch example_world) (now_when example_world)
        null_island_data (randomUUID example_world))) = Some (JStr ''email_123'')"
    by code_simp
  from bounding_box_not_enforced [where s = Map.empty and w = example_world and cfg = example_env
      and uuid = uuid_shape and b = "JObj null_island_fields" and d = null_island_data]
    v out ok ref example_miss
  show ?thesis by simp
qed

text \<open>
  C9, as the specification has it, fails: there is no enabled gate, and a valid payload
  from outside the rectangle is answered 200, not 400 \<open>out_of_bounds\<close>.
\<close>

theorem outside_rectangle_accepted:
  "\<not> isInSanFrancisco 0 0
   \<and> submitSchema_parse uuid_shape (JObj null_island_fields) = Inr null_island_data
   \<and> lat null_island_data = 0 \<and> lon null_island_data = 0
   \<and> response (POST uuid_shape example_env example_world Map.empty (Inr (JObj null_island_fields)))
       = \<lparr>status = 200, body = SuccessBody (Some (JStr ''email_123''))\<rparr>"
  by code_simp

text \<open>
  C10. Whatever requests the process has served since it started with an empty store,
  the response to the next one is a 200 with a success body, the 400 \<open>bad_request\<close> or
  the 500 \<open>server_error\<close>; its code is never \<open>out_of_bounds\<close>.
\<close>

theorem responses_never_out_of_bounds:
  "((status (response (POST uuid cfg w (serve uuid Map.empty history) req)) = 200
       \<and> (\<exists>ref. body (response (POST uuid cfg w (serve uuid Map.empty history) req))
                  = SuccessBody ref))
     \<or> response (POST uuid cfg w (serve uuid Map.empty history) req) =
          \<lparr>status = 400, body = ErrorBody ''bad_request'' ''Invalid request data''\<rparr>
     \<or> response (POST uuid cfg w (serve uuid Map.empty history) req) =
          \<lparr>status = 500, body = ErrorBody ''server_error'' ''Internal server error''\<rparr>)
   \<and> body (response (POST uuid cfg w (serve uuid Map.empty history) req))
        \<noteq> ErrorBody ''out_of_bounds'' m"
proof -
  have inv: "\<exists>ref. entry_response e = SuccessBody ref"
    if "serve uuid Map.empty history k = Some e" for k e
    using serve_keeps_successes [of Map.empty uuid history k e] that by simp
  from POST_response_shapes [of "serve uuid Map.empty history" uuid cfg w req] inv
  show ?thesis by auto
qed

text \<open>The report from latitude 0, longitude 0, sent after the example has been served.\<close>

theorem responses_never_out_of_bounds_witness:
  "body (response (POST uuid_shape example_env ten_seconds_later
      (serve uuid_shape Map.empty [(example_env, example_world, Inr (JObj example_fields))])
      (Inr (JObj null_island_fields))))
     \<noteq> ErrorBody ''out_of_bounds'' ''Location must be within San Francisco city limits''"
  using responses_never_out_of_bounds [of uuid_shape example_env ten_seconds_later
      "[(example_env, example_world, Inr (JObj example_fields))]" "Inr (JObj null_island_fields)"
      "''Location must be within San Francisco city limits''"]
  by simp

end
